theory Spec2Isabelle
  imports Complex_Main "HOL-Library.Word" "HOL-Library.Signed_Division" "HOL-Library.Multiset"
begin

unbundle bit_operations_syntax

section \<open>Status codes and buffers\<close>

text \<open>
  \<open>status_t\<close> is a 32-bit signed integer; the values that occur here are small and are
  combined with \<open>|=\<close> only, so they are kept as \<open>int\<close> (two's complement \<open>OR\<close>).
  \<open>OK\<close> and \<open>UNKNOWN_ERROR\<close> are the platform's values (\<open>0\<close> and \<open>INT32_MIN\<close>).
\<close>

type_synonym status_t = int

definition OK :: status_t where
  "OK = 0"

definition UNKNOWN_ERROR :: status_t where
  "UNKNOWN_ERROR = - 2147483648"

text \<open>
  A \<open>CameraBuffer\<close> as far as this file reads it: the object's identity (what
  \<open>cambuf.get()\<close> compares), \<open>format()\<close>, \<open>v4l2Fmt()\<close>, \<open>isLocked()\<close> and whether
  \<open>getBufferHandle()\<close> is non-null.
\<close>

record CameraBuffer =
  cb_addr :: nat
  cb_format :: int
  cb_v4l2Fmt :: int
  cb_locked :: bool
  cb_handle :: bool

text \<open>
  A \<open>PostProcBuffer\<close>: the pool index and the (possibly null) camera buffer.
\<close>

record PostProcBuffer =
  index :: nat
  cambuf :: "CameraBuffer option"

section \<open>The bounded buffer pool\<close>

text \<open>
  Modelled from the spec: the item pool template behind \<open>mPostProcItemsPool\<close>
  (\<open>init\<close>, \<open>acquireItem\<close> and the release that a \<open>shared_ptr\<close>'s destruction
  triggers) is not among the sources. Following section 4.1, \<open>init capacity\<close>
  pre-allocates \<open>capacity\<close> items, all available; \<open>acquireItem\<close> returns an available
  item or none when the pool is exhausted and never grows the pool; a released item
  becomes acquirable again. The underlying allocation either provides all items or
  none (\<open>alloc_ok\<close>). Free items are recycled oldest first, which is what
  \<open>createBufferPools\<close>, \<open>allocCameraBuffer\<close> and \<open>stop\<close> rely on when they visit every
  item by acquiring and dropping one item per iteration. An item is passed by value:
  whoever holds it may change it, and the change is kept when the item is released.
\<close>

record SharedItemPool =
  mCapacity :: nat
  mAvailable :: "PostProcBuffer list"

text \<open>
  Modelled from the spec: \<open>init\<close> of the pool template, which is not among the sources
  (\<open>create(capacity)\<close> pre-allocates \<open>capacity\<close> buffer slots). \<open>fresh\<close> is a newly
  constructed item.
\<close>

definition SharedItemPool_init ::
  "bool \<Rightarrow> PostProcBuffer \<Rightarrow> nat \<Rightarrow> SharedItemPool \<Rightarrow> SharedItemPool" where
  "SharedItemPool_init alloc_ok fresh capacity p =
     p\<lparr>mCapacity := capacity,
       mAvailable := (if alloc_ok then replicate capacity fresh else [])\<rparr>"

text \<open>
  Modelled from the spec: \<open>acquireItem\<close> of the pool template, which is not among the
  sources (it returns an available buffer, or none if the pool is exhausted). The
  oldest free item is taken.
\<close>

definition SharedItemPool_acquireItem ::
  "SharedItemPool \<Rightarrow> PostProcBuffer option \<times> SharedItemPool" where
  "SharedItemPool_acquireItem p =
     (case mAvailable p of
        [] \<Rightarrow> (None, p)
      | b # bs \<Rightarrow> (Some b, p\<lparr>mAvailable := bs\<rparr>))"

text \<open>
  Modelled from the spec: the release of an item by the deleter of its \<open>shared_ptr\<close>,
  part of the pool template that is not among the sources (every released buffer
  becomes acquirable again). The item joins the free items as the newest.
\<close>

definition SharedItemPool_releaseItem ::
  "PostProcBuffer \<Rightarrow> SharedItemPool \<Rightarrow> SharedItemPool" where
  "SharedItemPool_releaseItem b p = p\<lparr>mAvailable := mAvailable p @ [b]\<rparr>"

text \<open>\<open>PostProcBufferPools\<close>, from the source.\<close>

record PostProcBufferPools =
  mBufferPoolSize :: nat
  mPostProcItemsPool :: SharedItemPool

text \<open>
  The loop of \<open>createBufferPools\<close>: each iteration acquires an item, returns
  \<open>UNKNOWN_ERROR\<close> when there is none, writes the loop counter into \<open>index\<close>, and drops
  its reference at the end of the iteration, which releases the item to the pool.
\<close>

fun createBufferPools_loop ::
  "nat list \<Rightarrow> SharedItemPool \<Rightarrow> status_t \<times> SharedItemPool" where
  "createBufferPools_loop [] p = (OK, p)"
| "createBufferPools_loop (i # rest) p =
     (case SharedItemPool_acquireItem p of
        (None, p') \<Rightarrow> (UNKNOWN_ERROR, p')
      | (Some postprocbuf, p') \<Rightarrow>
          createBufferPools_loop rest
            (SharedItemPool_releaseItem (postprocbuf\<lparr>index := i\<rparr>) p'))"

definition createBufferPools ::
  "bool \<Rightarrow> PostProcBuffer \<Rightarrow> nat \<Rightarrow> PostProcBufferPools \<Rightarrow> status_t \<times> PostProcBufferPools" where
  "createBufferPools alloc_ok fresh numBufs pools =
     (let pools1 = pools\<lparr>mBufferPoolSize := numBufs\<rparr>;
          pool1 = SharedItemPool_init alloc_ok fresh (mBufferPoolSize pools1)
                    (mPostProcItemsPool pools1);
          (status, pool2) = createBufferPools_loop [0..<mBufferPoolSize pools1] pool1
      in (status, pools1\<lparr>mPostProcItemsPool := pool2\<rparr>))"

definition acquireItem ::
  "PostProcBufferPools \<Rightarrow> PostProcBuffer option \<times> PostProcBufferPools" where
  "acquireItem pools =
     (let (procbuf, pool') = SharedItemPool_acquireItem (mPostProcItemsPool pools)
      in (procbuf, pools\<lparr>mPostProcItemsPool := pool'\<rparr>))"

text \<open>\<open>n\<close> successive \<open>acquireItem()\<close> calls whose results are all kept by the caller.\<close>

fun acquire_many ::
  "nat \<Rightarrow> PostProcBufferPools \<Rightarrow> PostProcBuffer option list \<times> PostProcBufferPools" where
  "acquire_many 0 pools = ([], pools)"
| "acquire_many (Suc n) pools =
     (let (procbuf, pools') = acquireItem pools;
          (more, pools'') = acquire_many n pools'
      in (procbuf # more, pools''))"

section \<open>The processing node\<close>

text \<open>
  \<open>mBufType\<close> is a \<open>uint32_t\<close> compared with the three enumerators of
  \<open>PostProcBufType\<close>; every other value takes the \<open>default\<close> branch of the switch in
  \<open>prepareProcess\<close> and is kept as \<open>kPostProcBufTypeOther\<close>.
\<close>

datatype PostProcBufType =
    kPostProcBufTypeInt
  | kPostProcBufTypePre
  | kPostProcBufTypeExt
  | kPostProcBufTypeOther nat

record CameraWindow =
  cw_left :: int
  cw_top :: int
  cw_width :: int
  cw_height :: int

record ProcUnitSettings =
  cropRegion :: CameraWindow

text \<open>
  The worker thread object and the listeners are collaborators. The calls made on the
  thread are logged in \<open>mProcThread\<close> and what \<open>run\<close> and \<open>requestExitAndWait\<close> return
  is an argument of \<open>start\<close> and \<open>stop\<close>. A listener is another node, known by its
  number among the pipeline's nodes, or the pipeline's output-buffers handler; every
  \<open>notifyNewFrame\<close> sent to a listener is appended to \<open>notified\<close> and what the
  listener returns is given by the argument \<open>lst\<close>. A \<open>shared_ptr\<close> that may be null
  is an \<open>option\<close>.
\<close>

datatype thread_call = ThreadRun | ThreadRequestExitAndWait

datatype listener = ProcUnit nat | mOutputBuffersHandler

type_synonym notification =
  "listener \<times> PostProcBuffer option \<times> ProcUnitSettings option \<times> int"

type_synonym listener_status =
  "listener \<Rightarrow> PostProcBuffer option \<Rightarrow> ProcUnitSettings option \<Rightarrow> int \<Rightarrow> status_t"

type_synonym kernel =
  "PostProcBuffer \<Rightarrow> PostProcBuffer \<Rightarrow> ProcUnitSettings option \<Rightarrow> status_t"

record PostProcessUnit =
  mInternalBufPool :: PostProcBufferPools
  mName :: string
  mBufType :: PostProcBufType
  mEnable :: bool
  mSyncProcess :: bool
  mThreadRunning :: bool
  mProcThread :: "thread_call list"
  mProcessUnitType :: int
  mInBufferPool :: "(PostProcBuffer option \<times> ProcUnitSettings option) list"
  mOutBufferPool :: "PostProcBuffer option list"
  mCurPostProcBufIn :: "PostProcBuffer option"
  mCurProcSettings :: "ProcUnitSettings option"
  mCurPostProcBufOut :: "PostProcBuffer option"
  mListeners :: "listener list"
  notified :: "notification list"

definition kDefaultAllocBufferNums :: nat where
  "kDefaultAllocBufferNums = 4"

definition notifyListeners ::
  "listener_status \<Rightarrow> PostProcBuffer option \<Rightarrow> ProcUnitSettings option \<Rightarrow> int \<Rightarrow>
   PostProcessUnit \<Rightarrow> status_t \<times> PostProcessUnit" where
  "notifyListeners lst buf settings err u =
     (fold (\<lambda>listener status. status OR lst listener buf settings err) (mListeners u) OK,
      u\<lparr>notified := notified u @ map (\<lambda>listener. (listener, buf, settings, err)) (mListeners u)\<rparr>)"

definition start :: "status_t \<Rightarrow> PostProcessUnit \<Rightarrow> status_t \<times> PostProcessUnit" where
  "start run_status u =
     (if mThreadRunning u then (OK, u)
      else (run_status, u\<lparr>mThreadRunning := True, mProcThread := mProcThread u @ [ThreadRun]\<rparr>))"

text \<open>
  One iteration of the loop in \<open>stop\<close>: an item that is there, has a camera buffer and
  is locked gets unlocked; the reference is dropped at the end of the iteration.
\<close>

definition stop_unlock :: "PostProcBufferPools \<Rightarrow> PostProcBufferPools" where
  "stop_unlock pools =
     (case acquireItem pools of
        (None, pools') \<Rightarrow> pools'
      | (Some procbuf, pools') \<Rightarrow>
          (let procbuf' =
                 (case cambuf procbuf of
                    None \<Rightarrow> procbuf
                  | Some c \<Rightarrow>
                      if cb_locked c then procbuf\<lparr>cambuf := Some (c\<lparr>cb_locked := False\<rparr>)\<rparr>
                      else procbuf)
           in pools'\<lparr>mPostProcItemsPool :=
                       SharedItemPool_releaseItem procbuf' (mPostProcItemsPool pools')\<rparr>))"

definition stop :: "status_t \<Rightarrow> PostProcessUnit \<Rightarrow> status_t \<times> PostProcessUnit" where
  "stop exit_status u =
     (if \<not> mThreadRunning u then (OK, u)
      else
        (let u1 = u\<lparr>mThreadRunning := False\<rparr>;
             u2 = u1\<lparr>mInternalBufPool :=
                       fold (\<lambda>i. stop_unlock) [0..<kDefaultAllocBufferNums] (mInternalBufPool u1)\<rparr>
         in (exit_status, u2\<lparr>mProcThread := mProcThread u2 @ [ThreadRequestExitAndWait]\<rparr>)))"

definition addOutputBuffer ::
  "PostProcBuffer option \<Rightarrow> PostProcessUnit \<Rightarrow> status_t \<times> PostProcessUnit" where
  "addOutputBuffer buf u =
     (if mBufType u \<noteq> kPostProcBufTypeExt then (UNKNOWN_ERROR, u)
      else (OK, u\<lparr>mOutBufferPool := mOutBufferPool u @ [buf]\<rparr>))"

text \<open>
  The \<open>switch\<close> of \<open>prepareProcess\<close> that gets an output buffer from the internal
  pool, from \<open>mOutBufferPool\<close> or from the input.
\<close>

definition obtainOutput :: "PostProcessUnit \<Rightarrow> PostProcessUnit" where
  "obtainOutput u =
     (case mBufType u of
        kPostProcBufTypeInt \<Rightarrow>
          (let (procbuf, pools') = acquireItem (mInternalBufPool u)
           in u\<lparr>mCurPostProcBufOut := procbuf, mInternalBufPool := pools'\<rparr>)
      | kPostProcBufTypeExt \<Rightarrow>
          (case mOutBufferPool u of
             [] \<Rightarrow> u
           | b # rest \<Rightarrow> u\<lparr>mCurPostProcBufOut := b, mOutBufferPool := rest\<rparr>)
      | kPostProcBufTypePre \<Rightarrow> u\<lparr>mCurPostProcBufOut := mCurPostProcBufIn u\<rparr>
      | kPostProcBufTypeOther t \<Rightarrow> u)"

text \<open>
  \<open>prepareProcess\<close>. The result is \<open>None\<close> where the thread blocks in
  \<open>mCondition.wait\<close> (running, nothing queued): it goes on only once another thread has
  queued a frame or stopped the node.
\<close>

definition prepareProcess :: "PostProcessUnit \<Rightarrow> PostProcessUnit option" where
  "prepareProcess u =
     (if mThreadRunning u \<and> mInBufferPool u = [] then None
      else if \<not> mThreadRunning u then Some u
      else
        (case mInBufferPool u of
           [] \<Rightarrow> None
         | (b, s) # rest \<Rightarrow>
             (let u1 = u\<lparr>mCurPostProcBufIn := b, mCurProcSettings := s, mInBufferPool := rest\<rparr>
              in if mCurPostProcBufOut u1 \<noteq> None then Some u1
                 else
                   (let u2 = obtainOutput u1
                    in if mCurPostProcBufOut u2 = None
                       then Some (u2\<lparr>mCurPostProcBufIn := None, mCurProcSettings := None\<rparr>)
                       else Some u2))))"

text \<open>
  \<open>relayToNextProcUnit\<close>; \<open>need\<close> is \<open>STATUS_NEED_NEXT_INPUT_FRAME\<close>, a macro of a
  header that is not among the sources.
\<close>

definition relayToNextProcUnit ::
  "status_t \<Rightarrow> listener_status \<Rightarrow> int \<Rightarrow> PostProcessUnit \<Rightarrow> status_t \<times> PostProcessUnit" where
  "relayToNextProcUnit need lst err u =
     (if err = need
      then (err, u\<lparr>mCurPostProcBufIn := None, mCurProcSettings := None\<rparr>)
      else
        (let (status, u1) = notifyListeners lst (mCurPostProcBufOut u) (mCurProcSettings u) err u
         in (status, u1\<lparr>mCurPostProcBufOut := None, mCurPostProcBufIn := None,
                         mCurProcSettings := None\<rparr>)))"

text \<open>
  The body of the \<open>do ... while\<close> loop of \<open>doProcess\<close>: \<open>prepareProcess\<close>, then the
  kernel \<open>processFrame\<close> (virtual; the argument \<open>k\<close> gives its status) and
  \<open>relayToNextProcUnit\<close> when both current slots are set. \<open>status\<close> keeps its value
  otherwise.
\<close>

definition doProcess_body ::
  "kernel \<Rightarrow> status_t \<Rightarrow> listener_status \<Rightarrow> status_t \<Rightarrow> PostProcessUnit \<Rightarrow>
   (status_t \<times> PostProcessUnit) option" where
  "doProcess_body k need lst status u =
     (case prepareProcess u of
        None \<Rightarrow> None
      | Some u1 \<Rightarrow>
          (case (mCurPostProcBufIn u1, mCurPostProcBufOut u1) of
             (Some bin, Some bout) \<Rightarrow>
               Some (relayToNextProcUnit need lst (k bin bout (mCurProcSettings u1)) u1)
           | _ \<Rightarrow> Some (status, u1)))"

lemma doProcess_body_dequeues:
  assumes "doProcess_body k need lst status u = Some (status', u')" and "mThreadRunning u'"
  shows "length (mInBufferPool u') < length (mInBufferPool u)"
  using assms
  by (auto simp: doProcess_body_def prepareProcess_def relayToNextProcUnit_def
      notifyListeners_def obtainOutput_def acquireItem_def Let_def
      split: option.splits if_splits list.splits prod.splits PostProcBufType.splits)

function doProcess_loop ::
  "kernel \<Rightarrow> status_t \<Rightarrow> listener_status \<Rightarrow> status_t \<Rightarrow> PostProcessUnit \<Rightarrow>
   (status_t \<times> PostProcessUnit) option" where
  "doProcess_loop k need lst status u =
     (case doProcess_body k need lst status u of
        None \<Rightarrow> None
      | Some (status', u') \<Rightarrow>
          if mThreadRunning u' \<and> status' = need then doProcess_loop k need lst status' u'
          else Some (status', u'))"
  by pat_completeness auto
termination
proof (relation "measure (\<lambda>(k, need, lst, status, u). length (mInBufferPool u))")
  show "wf (measure (\<lambda>(k, need, lst, status, u). length (mInBufferPool u)))"
    by simp
next
  fix k :: kernel and need :: status_t and lst :: listener_status and status :: status_t
    and u :: PostProcessUnit and x2 :: "status_t \<times> PostProcessUnit" and x :: status_t
    and y :: PostProcessUnit
  assume "doProcess_body k need lst status u = Some x2" and "(x, y) = x2"
    and "mThreadRunning y \<and> x = need"
  then show "((k, need, lst, x, y), k, need, lst, status, u)
      \<in> measure (\<lambda>(k, need, lst, status, u). length (mInBufferPool u))"
    using doProcess_body_dequeues [of k need lst status u x y] by auto
qed

definition doProcess ::
  "kernel \<Rightarrow> status_t \<Rightarrow> listener_status \<Rightarrow> PostProcessUnit \<Rightarrow>
   (status_t \<times> PostProcessUnit) option" where
  "doProcess k need lst u = doProcess_loop k need lst OK u"

text \<open>
  The constructor \<open>PostProcessUnit(name, type, buftype)\<close>; the pool object it creates
  holds no item before \<open>createBufferPools\<close>.
\<close>

definition new_PostProcBufferPools :: PostProcBufferPools where
  "new_PostProcBufferPools =
     \<lparr>mBufferPoolSize = 0, mPostProcItemsPool = \<lparr>mCapacity = 0, mAvailable = []\<rparr>\<rparr>"

definition new_PostProcessUnit :: "string \<Rightarrow> int \<Rightarrow> PostProcBufType \<Rightarrow> PostProcessUnit" where
  "new_PostProcessUnit name type buftype =
     \<lparr>mInternalBufPool = new_PostProcBufferPools,
      mName = name,
      mBufType = buftype,
      mEnable = True,
      mSyncProcess = False,
      mThreadRunning = False,
      mProcThread = [],
      mProcessUnitType = type,
      mInBufferPool = [],
      mOutBufferPool = [],
      mCurPostProcBufIn = None,
      mCurProcSettings = None,
      mCurPostProcBufOut = None,
      mListeners = [],
      notified = []\<rparr>"

section \<open>The digital zoom kernel\<close>

text \<open>
  The pixel formats are the platform's values. \<open>checkFmt\<close> takes two raw pointers
  (\<open>None\<close> is the null pointer). Of \<open>processFrame\<close> the status is modelled together
  with the path taken; \<open>mApa\<close> is the active pixel array, \<open>rga_failed\<close> what the
  accelerator reports, and the result is \<open>None\<close> where the copy path would dereference
  a null camera buffer.
\<close>

definition HAL_PIXEL_FORMAT_YCrCb_NV12 :: int where
  "HAL_PIXEL_FORMAT_YCrCb_NV12 = 21"

definition HAL_PIXEL_FORMAT_YCrCb_420_SP :: int where
  "HAL_PIXEL_FORMAT_YCrCb_420_SP = 17"

definition V4L2_PIX_FMT_NV12 :: int where
  "V4L2_PIX_FMT_NV12 = 842094158"

definition V4L2_PIX_FMT_NV21 :: int where
  "V4L2_PIX_FMT_NV21 = 825382478"

definition PostProcessUnitDigitalZoom_checkFmt ::
  "CameraBuffer option \<Rightarrow> CameraBuffer option \<Rightarrow> bool" where
  "PostProcessUnitDigitalZoom_checkFmt inbuf outbuf =
     (case (inbuf, outbuf) of
        (Some i, Some out) \<Rightarrow>
          (let hal_fmt_supported =
                 ((cb_format i \<noteq> HAL_PIXEL_FORMAT_YCrCb_NV12 \<and>
                   cb_format i \<noteq> HAL_PIXEL_FORMAT_YCrCb_420_SP) \<or>
                  (cb_format out \<noteq> HAL_PIXEL_FORMAT_YCrCb_NV12 \<and>
                   cb_format out \<noteq> HAL_PIXEL_FORMAT_YCrCb_420_SP));
               v4l_fmt_supported =
                 ((cb_v4l2Fmt i \<noteq> V4L2_PIX_FMT_NV12 \<and>
                   cb_v4l2Fmt i \<noteq> V4L2_PIX_FMT_NV21) \<or>
                  (cb_v4l2Fmt out \<noteq> V4L2_PIX_FMT_NV12 \<and>
                   cb_v4l2Fmt out \<noteq> V4L2_PIX_FMT_NV21))
           in hal_fmt_supported \<or> v4l_fmt_supported)
      | _ \<Rightarrow> False)"

datatype zoom_action = ZoomMemcpy | ZoomUnsupported | ZoomRga | ZoomArm

definition PostProcessUnitDigitalZoom_processFrame ::
  "CameraWindow \<Rightarrow> bool \<Rightarrow> PostProcBuffer \<Rightarrow> PostProcBuffer \<Rightarrow> ProcUnitSettings \<Rightarrow>
   (status_t \<times> zoom_action) option" where
  "PostProcessUnitDigitalZoom_processFrame mApa rga_failed inbuf outbuf settings =
     (let crop = cropRegion settings
      in if cw_width crop = cw_width mApa \<and> cw_height crop = cw_height mApa \<and>
            cw_left crop = cw_left mApa \<and> cw_top crop = cw_top mApa
         then (if cambuf inbuf = None \<or> cambuf outbuf = None then None
               else Some (OK, ZoomMemcpy))
         else if \<not> PostProcessUnitDigitalZoom_checkFmt (cambuf inbuf) (cambuf outbuf)
         then Some (UNKNOWN_ERROR, ZoomUnsupported)
         else Some (OK, if rga_failed then ZoomArm else ZoomRga))"

section \<open>Software lens-shading configuration\<close>

text \<open>
  The block sizes of \<open>lsc_config\<close>. The loop is written
  \<open>for (i = 0; i++; i < 8)\<close>: its condition is \<open>i++\<close>, whose value is \<open>i\<close> before the
  increment, and \<open>i < 8\<close> stands where the step belongs and has no effect. An
  iteration that passes the condition runs the body with the incremented \<open>i\<close>; a
  write outside the eight-element arrays is undefined behaviour and is the result
  \<open>None\<close>, so \<open>i\<close> stays small and is kept as \<open>int\<close>. The last component counts the
  executions of the body. \<open>width\<close> and \<open>height\<close> are C integers (\<open>/\<close> and \<open>%\<close>
  truncate), the sizes are \<open>uint16_t\<close>. The gradients and coefficient tables that
  \<open>lsc_config\<close> fills in afterwards are not part of this model.
\<close>

function lsc_config_split_loop ::
  "int \<Rightarrow> int \<Rightarrow> int \<Rightarrow> 16 word list \<Rightarrow> 16 word list \<Rightarrow> nat \<Rightarrow>
   (int \<times> 16 word list \<times> 16 word list \<times> nat) option" where
  "lsc_config_split_loop width height i sizex sizey n =
     (if i \<noteq> 0
      then (if 0 \<le> i + 1 \<and> i + 1 < 8
            then lsc_config_split_loop width height (i + 1)
                   (sizex[nat (i + 1) := word_of_int (width sdiv 2 sdiv 8)])
                   (sizey[nat (i + 1) := word_of_int (height sdiv 2 sdiv 8)])
                   (Suc n)
            else None)
      else Some (i + 1, sizex, sizey, n))"
  by pat_completeness auto
termination
  by (relation "measure (\<lambda>(width, height, i, sizex, sizey, n). nat (8 - i))") auto

definition lsc_config_sizes :: "int \<Rightarrow> int \<Rightarrow> (16 word list \<times> 16 word list \<times> nat) option" where
  "lsc_config_sizes width height =
     (case lsc_config_split_loop width height 0
             [120, 120, 120, 120, 120, 120, 120, 120]
             [67, 68, 67, 68, 67, 68, 67, 68] 0 of
        None \<Rightarrow> None
      | Some (i, sizex, sizey, n) \<Rightarrow>
          Some (sizex[7 := sizex ! 7 + word_of_int ((width smod 16) sdiv 2)],
                sizey[7 := sizey ! 7 + word_of_int ((height smod 16) sdiv 2)],
                n))"

section \<open>Example states\<close>

text \<open>
  A locked NV12 stream buffer, and an external-regime scaler node that is running with
  two queued inputs and two supplied destinations, before and after the kernel asked
  for the next input on the first of them.
\<close>

definition ex_buf :: "nat \<Rightarrow> PostProcBuffer" where
  "ex_buf n =
     \<lparr>index = n,
      cambuf = Some \<lparr>cb_addr = n, cb_format = 21, cb_v4l2Fmt = 842094158,
                     cb_locked = True, cb_handle = True\<rparr>\<rparr>"

definition ext_unit_queued :: PostProcessUnit where
  "ext_unit_queued =
     (new_PostProcessUnit ''ScaleRotation'' 64 kPostProcBufTypeExt)
       \<lparr>mThreadRunning := True,
        mListeners := [mOutputBuffersHandler],
        mInBufferPool := [(Some (ex_buf 1), None), (Some (ex_buf 2), None)],
        mOutBufferPool := [Some (ex_buf 11), Some (ex_buf 12)]\<rparr>"

definition ext_unit_retained :: PostProcessUnit where
  "ext_unit_retained =
     ext_unit_queued
       \<lparr>mInBufferPool := [(Some (ex_buf 2), None)],
        mOutBufferPool := [Some (ex_buf 12)],
        mCurPostProcBufOut := Some (ex_buf 11)\<rparr>"

definition ext_unit_starved :: PostProcessUnit where
  "ext_unit_starved = ext_unit_queued\<lparr>mOutBufferPool := []\<rparr>"

section \<open>The pipeline graph builder\<close>

text \<open>
  The transform-type bits, the two shift bounds and the mask
  \<open>NO_NEED_INTERNAL_BUFFER_PROCESS_TYPES\<close> come from a header that is not among the
  sources; they are the fields of \<open>pipeline_header\<close>, an argument of \<open>prepare\<close>.
  Process types are 32-bit patterns. \<open>1 << i\<close> is \<open>push_bit i 1\<close>.
\<close>

record pipeline_header =
  kPostProcessTypeFaceDetection :: "32 word"
  kPostProcessTypeSwLsc :: "32 word"
  kPostProcessTypeCropRotationScale :: "32 word"
  kPostprocessTypeUvnr :: "32 word"
  kPostProcessTypeDigitalZoom :: "32 word"
  kPostProcessTypeScaleAndRotation :: "32 word"
  kPostProcessTypeJpegEncoder :: "32 word"
  kPostProcessTypeCopy :: "32 word"
  MAX_COMMON_PROC_UNIT_SHIFT :: nat
  MAX_STREAM_PROC_UNIT_SHIFT :: nat
  NO_NEED_INTERNAL_BUFFER_PROCESS_TYPES :: "32 word"

text \<open>
  A requested stream (\<open>camera3_stream_t\<close>; \<open>stream_addr\<close> is the pointer that keys the
  maps) and the input \<open>FrameInfo\<close>. \<open>HAL_PIXEL_FORMAT_BLOB\<close>, \<open>CAMERA3_STREAM_OUTPUT\<close>
  and the two rotation values are the platform's.
\<close>

record camera3_stream =
  stream_addr :: nat
  stream_type :: int
  width :: "32 word"
  height :: "32 word"
  format :: int
  crop_rotate_scale_degrees :: int

record FrameInfo =
  fi_width :: "32 word"
  fi_height :: "32 word"

definition HAL_PIXEL_FORMAT_BLOB :: int where
  "HAL_PIXEL_FORMAT_BLOB = 33"

definition CAMERA3_STREAM_OUTPUT :: int where
  "CAMERA3_STREAM_OUTPUT = 0"

definition CAMERA3_STREAM_ROTATION_90 :: int where
  "CAMERA3_STREAM_ROTATION_90 = 1"

definition CAMERA3_STREAM_ROTATION_270 :: int where
  "CAMERA3_STREAM_ROTATION_270 = 3"

text \<open>\<open>getRotationDegrees\<close>; \<open>chrome_board\<close> tells whether \<open>CHROME_BOARD\<close> is defined.\<close>

definition getRotationDegrees :: "bool \<Rightarrow> camera3_stream \<Rightarrow> int" where
  "getRotationDegrees chrome_board stream =
     (if stream_type stream \<noteq> CAMERA3_STREAM_OUTPUT then 0
      else if chrome_board \<and> crop_rotate_scale_degrees stream = CAMERA3_STREAM_ROTATION_90
      then 90
      else if chrome_board \<and> crop_rotate_scale_degrees stream = CAMERA3_STREAM_ROTATION_270
      then 270
      else 0)"

text \<open>
  The pipeline. Nodes are created by \<open>make_shared\<close>; they live in \<open>units\<close>, and a
  pointer to a node is its position there. Each node is kept with the class it was
  created as.
\<close>

datatype ProcessUnitLevel = kFirstLevel | kMiddleLevel | kLastLevel

datatype unit_class =
    ClassPostProcessUnit
  | ClassPostProcessUnitDigitalZoom
  | ClassPostProcessUnitSwLsc
  | ClassPostProcessUnitJpegEnc

record PostProcessPipeLine =
  mCameraId :: int
  mMayNeedSyncStreamsOutput :: bool
  mPostProcUnits :: "nat list"
  mPostProcUnitArray :: "ProcessUnitLevel \<Rightarrow> nat list"
  mStreamToProcUnitMap :: "nat \<rightharpoonup> nat"
  units :: "(unit_class \<times> PostProcessUnit) list"

definition new_PostProcessPipeLine :: "int \<Rightarrow> PostProcessPipeLine" where
  "new_PostProcessPipeLine camid =
     \<lparr>mCameraId = camid,
      mMayNeedSyncStreamsOutput = False,
      mPostProcUnits = [],
      mPostProcUnitArray = (\<lambda>level. []),
      mStreamToProcUnitMap = Map.empty,
      units = []\<rparr>"

definition make_shared ::
  "unit_class \<Rightarrow> string \<Rightarrow> 32 word \<Rightarrow> PostProcBufType \<Rightarrow> PostProcessPipeLine \<Rightarrow>
   nat \<times> PostProcessPipeLine" where
  "make_shared cls name type buftype P =
     (length (units P),
      P\<lparr>units := units P @ [(cls, new_PostProcessUnit name (sint type) buftype)]\<rparr>)"

definition attachListener :: "listener \<Rightarrow> PostProcessUnit \<Rightarrow> PostProcessUnit" where
  "attachListener l u = u\<lparr>mListeners := mListeners u @ [l]\<rparr>"

definition unit_attachListener ::
  "nat \<Rightarrow> listener \<Rightarrow> PostProcessPipeLine \<Rightarrow> PostProcessPipeLine" where
  "unit_attachListener p l P =
     P\<lparr>units := (units P)[p := (fst (units P ! p), attachListener l (snd (units P ! p)))]\<rparr>"

definition linkPostProcUnit ::
  "nat option \<Rightarrow> nat option \<Rightarrow> ProcessUnitLevel \<Rightarrow> PostProcessPipeLine \<Rightarrow>
   status_t \<times> PostProcessPipeLine" where
  "linkPostProcUnit from to level P =
     (case from of
        None \<Rightarrow> (UNKNOWN_ERROR, P)
      | Some f \<Rightarrow>
          (if to = None \<and> level \<noteq> kFirstLevel then (UNKNOWN_ERROR, P)
           else
             (let P1 = (case to of
                          Some t \<Rightarrow> unit_attachListener t (ProcUnit f) P
                        | None \<Rightarrow> P)
              in (OK, P1\<lparr>mPostProcUnits := mPostProcUnits P1 @ [f],
                          mPostProcUnitArray :=
                            (mPostProcUnitArray P1)(level := mPostProcUnitArray P1 level @ [f])\<rparr>))))"

text \<open>
  The first loop of \<open>prepare\<close>: the process type of every stream, and the common type.
  \<open>max_digital_zoom\<close> is what the lookup of
  \<open>ANDROID_SCALER_AVAILABLE_MAX_DIGITAL_ZOOM\<close> in the static metadata left in the
  variable of this name (\<open>1.0\<close> when there is no entry).
\<close>

definition analyze_stream ::
  "pipeline_header \<Rightarrow> bool \<Rightarrow> real \<Rightarrow> FrameInfo \<Rightarrow> camera3_stream \<Rightarrow>
   32 word \<times> (nat \<times> 32 word) list \<Rightarrow> 32 word \<times> (nat \<times> 32 word) list" where
  "analyze_stream H chrome_board max_digital_zoom infmt stream acc =
     (let common_process_type = fst acc;
          stream_process_type0 = (0 :: 32 word);
          stream_process_type1 =
            (if format stream = HAL_PIXEL_FORMAT_BLOB
             then stream_process_type0 OR kPostProcessTypeJpegEncoder H
             else stream_process_type0);
          stream_process_type2 =
            (if width stream * height stream \<noteq> fi_width infmt * fi_height infmt
             then stream_process_type1 OR kPostProcessTypeScaleAndRotation H
             else stream_process_type1);
          common1 =
            (if getRotationDegrees chrome_board stream \<noteq> 0
             then common_process_type OR kPostProcessTypeCropRotationScale H
             else common_process_type);
          common2 =
            (if max_digital_zoom > 1
             then common1 OR kPostProcessTypeDigitalZoom H
             else common1)
      in (common2, snd acc @ [(stream_addr stream, stream_process_type2)]))"

text \<open>The extra copy unit for streams that need nothing else.\<close>

definition add_memcpy_units ::
  "pipeline_header \<Rightarrow> 32 word \<Rightarrow> (nat \<times> 32 word) list \<Rightarrow> (nat \<times> 32 word) list" where
  "add_memcpy_units H common_types_exclude_buffer_needed streams_post_proc =
     (if length streams_post_proc > 1 \<or>
         (length streams_post_proc = 1 \<and> common_types_exclude_buffer_needed = 0)
      then map (\<lambda>(stream, stream_process_type).
                  if stream_process_type = 0
                  then (stream, stream_process_type OR kPostProcessTypeCopy H)
                  else (stream, stream_process_type))
             streams_post_proc
      else streams_post_proc)"

text \<open>The highest bit of \<open>types\<close> among the positions \<open>shifts\<close>, or \<open>0\<close>.\<close>

definition last_level_proc :: "nat list \<Rightarrow> 32 word \<Rightarrow> 32 word" where
  "last_level_proc shifts types =
     fold (\<lambda>i last. if types AND push_bit i 1 \<noteq> 0 then push_bit i 1 else last) shifts 0"

text \<open>
  The analysis part of \<open>prepare\<close>, up to \<open>needpostprocess\<close>. Reading
  \<open>streams_post_proc[0]\<close> of an empty vector is undefined: the result is \<open>None\<close>.
\<close>

record prepare_analysis =
  pa_common_process_type :: "32 word"
  pa_streams_post_proc :: "(nat \<times> 32 word) list"
  pa_last_level_proc_common :: "32 word"
  pa_needpostprocess :: bool

definition prepare_analyze ::
  "pipeline_header \<Rightarrow> bool \<Rightarrow> real \<Rightarrow> FrameInfo \<Rightarrow> camera3_stream list \<Rightarrow>
   prepare_analysis option" where
  "prepare_analyze H chrome_board max_digital_zoom infmt streams =
     (let (common_process_type, streams_post_proc0) =
            fold (analyze_stream H chrome_board max_digital_zoom infmt) streams (0, []);
          common_types_exclude_buffer_needed =
            common_process_type AND NOT (NO_NEED_INTERNAL_BUFFER_PROCESS_TYPES H);
          streams_post_proc =
            add_memcpy_units H common_types_exclude_buffer_needed streams_post_proc0;
          stream_proc_types = fold (\<lambda>stream_type_map t. t OR snd stream_type_map)
                                streams_post_proc 0;
          last_level_proc_common =
            (if stream_proc_types = 0
             then last_level_proc [1..<MAX_COMMON_PROC_UNIT_SHIFT H] common_process_type
             else 0)
      in case streams_post_proc of
           [] \<Rightarrow> None
         | main_stream # others \<Rightarrow>
             Some \<lparr>pa_common_process_type = common_process_type,
                   pa_streams_post_proc = streams_post_proc,
                   pa_last_level_proc_common = last_level_proc_common,
                   pa_needpostprocess =
                     (common_types_exclude_buffer_needed \<noteq> 0 \<or>
                      snd main_stream AND NOT (NO_NEED_INTERNAL_BUFFER_PROCESS_TYPES H) \<noteq> 0)\<rparr>)"

text \<open>
  Linking. The local variables \<open>procunit_from\<close>, \<open>procunit_to\<close> and the last unit of
  the chain being built travel with the pipeline through the loops. The \<open>switch\<close>
  statements are the functions \<open>common_unit\<close> and \<open>stream_unit\<close>: the name and class of
  the unit for a bit (and the buffer type, which the face detection case overrides),
  \<open>None\<close> in the \<open>default\<close> case. \<open>unit_prepare\<close> stands for the
  virtual \<open>prepare(in)\<close> of the new unit, which changes that unit only and whose
  status \<open>prepare\<close> ignores.
\<close>

record link_state =
  pipeline :: PostProcessPipeLine
  procunit_from :: "nat option"
  procunit_to :: "nat option"
  procunit_last :: "nat option"

type_synonym unit_prepare = "unit_class \<Rightarrow> FrameInfo \<Rightarrow> PostProcessUnit \<Rightarrow> PostProcessUnit"

definition call_prepare ::
  "unit_prepare \<Rightarrow> FrameInfo \<Rightarrow> nat \<Rightarrow> PostProcessPipeLine \<Rightarrow> PostProcessPipeLine" where
  "call_prepare up infmt p P =
     P\<lparr>units := (units P)[p := (fst (units P ! p), up (fst (units P ! p)) infmt (snd (units P ! p)))]\<rparr>"

definition common_unit ::
  "pipeline_header \<Rightarrow> 32 word \<Rightarrow> PostProcBufType \<Rightarrow>
   (string \<times> unit_class \<times> PostProcBufType) option" where
  "common_unit H test_type buf_type =
     (if test_type = kPostProcessTypeDigitalZoom H
      then Some (''digitalzoom'', ClassPostProcessUnitDigitalZoom, buf_type)
      else if test_type = kPostprocessTypeUvnr H
      then Some (''uvnr'', ClassPostProcessUnit, buf_type)
      else if test_type = kPostProcessTypeCropRotationScale H
      then Some (''CropRotationScale'', ClassPostProcessUnit, buf_type)
      else if test_type = kPostProcessTypeSwLsc H
      then Some (''SoftwareLsc'', ClassPostProcessUnitSwLsc, buf_type)
      else if test_type = kPostProcessTypeFaceDetection H
      then Some (''faceDetection'', ClassPostProcessUnit, kPostProcBufTypePre)
      else None)"

definition stream_unit :: "pipeline_header \<Rightarrow> 32 word \<Rightarrow> (string \<times> unit_class) option" where
  "stream_unit H test_type =
     (if test_type = kPostProcessTypeScaleAndRotation H
      then Some (''ScaleRotation'', ClassPostProcessUnit)
      else if test_type = kPostProcessTypeJpegEncoder H
      then Some (''JpegEnc'', ClassPostProcessUnitJpegEnc)
      else if test_type = kPostProcessTypeCopy H
      then Some (''MemCopy'', ClassPostProcessUnit)
      else None)"

text \<open>
  What both loops do once a unit was created: link it at the first or middle level,
  link it again at the last level and register it for \<open>stream\<close> when it is the last
  unit, and prepare it.
\<close>

definition link_new_unit ::
  "unit_prepare \<Rightarrow> FrameInfo \<Rightarrow> bool \<Rightarrow> nat \<Rightarrow> nat \<Rightarrow> nat option \<Rightarrow>
   PostProcessPipeLine \<Rightarrow> PostProcessPipeLine" where
  "link_new_unit up infmt last_proc_unit stream from to P =
     (let P1 = snd (linkPostProcUnit (Some from) to
                      (if to \<noteq> None then kMiddleLevel else kFirstLevel) P);
          P2 = (if last_proc_unit
                then (let P' = snd (linkPostProcUnit (Some from) to kLastLevel P1);
                          P'' = unit_attachListener from mOutputBuffersHandler P'
                      in P''\<lparr>mStreamToProcUnitMap := (mStreamToProcUnitMap P'')(stream \<mapsto> from)\<rparr>)
                else P1)
      in call_prepare up infmt from P2)"

definition link_common_unit ::
  "pipeline_header \<Rightarrow> unit_prepare \<Rightarrow> FrameInfo \<Rightarrow> nat \<Rightarrow> 32 word \<Rightarrow> 32 word \<Rightarrow>
   nat \<Rightarrow> link_state \<Rightarrow> link_state" where
  "link_common_unit H up infmt main_stream common_process_type last_level_proc_common i L =
     (let test_type = push_bit i (1 :: 32 word);
          last_proc_unit = (last_level_proc_common = test_type);
          buf_type = (if last_proc_unit then kPostProcBufTypeExt else kPostProcBufTypeInt)
      in if common_process_type AND test_type = 0 then L
         else
           (case common_unit H test_type buf_type of
              None \<Rightarrow> L
            | Some (process_unit_name, cls, buf_type') \<Rightarrow>
                (let (from, P1) = make_shared cls process_unit_name common_process_type
                                    buf_type' (pipeline L);
                     to = (if test_type = kPostProcessTypeFaceDetection H then None
                           else procunit_last L);
                     main_last = (if test_type = kPostProcessTypeFaceDetection H
                                  then procunit_last L else Some from)
                 in \<lparr>pipeline = link_new_unit up infmt last_proc_unit main_stream from to P1,
                     procunit_from = Some from,
                     procunit_to = to,
                     procunit_last = main_last\<rparr>)))"

definition link_stream_unit ::
  "pipeline_header \<Rightarrow> unit_prepare \<Rightarrow> FrameInfo \<Rightarrow> nat \<Rightarrow> 32 word \<Rightarrow> 32 word \<Rightarrow>
   nat \<Rightarrow> link_state \<Rightarrow> link_state" where
  "link_stream_unit H up infmt stream stream_proc_type last_level_proc_stream i L =
     (let test_type = push_bit i (1 :: 32 word);
          last_proc_unit = (last_level_proc_stream = test_type);
          buf_type = (if last_proc_unit then kPostProcBufTypeExt else kPostProcBufTypeInt)
      in if stream_proc_type AND test_type = 0 then L
         else
           (case stream_unit H test_type of
              None \<Rightarrow> L
            | Some (process_unit_name, cls) \<Rightarrow>
                (let (from, P1) = make_shared cls process_unit_name stream_proc_type
                                    buf_type (pipeline L);
                     to = procunit_last L
                 in \<lparr>pipeline = link_new_unit up infmt last_proc_unit stream from to P1,
                     procunit_from = Some from,
                     procunit_to = to,
                     procunit_last = Some from\<rparr>)))"

text \<open>
  The units of one stream: \<open>procunit_stream_last\<close> starts from the last common unit
  \<open>main_last\<close>, which the loop over the streams leaves as it is.
\<close>

definition link_stream ::
  "pipeline_header \<Rightarrow> unit_prepare \<Rightarrow> FrameInfo \<Rightarrow> nat option \<Rightarrow> nat \<times> 32 word \<Rightarrow>
   link_state \<Rightarrow> link_state" where
  "link_stream H up infmt main_last proc_map L =
     (let shifts = [MAX_COMMON_PROC_UNIT_SHIFT H + 1..<MAX_STREAM_PROC_UNIT_SHIFT H];
          last_level_proc_stream = last_level_proc shifts (snd proc_map)
      in fold (link_stream_unit H up infmt (fst proc_map) (snd proc_map) last_level_proc_stream)
           shifts (L\<lparr>procunit_last := main_last\<rparr>))"

text \<open>The linking part of \<open>prepare\<close>: the common units, then the units of each stream.\<close>

definition prepare_link ::
  "pipeline_header \<Rightarrow> unit_prepare \<Rightarrow> FrameInfo \<Rightarrow> camera3_stream list \<Rightarrow>
   prepare_analysis \<Rightarrow> PostProcessPipeLine \<Rightarrow> PostProcessPipeLine" where
  "prepare_link H up infmt streams a P =
     (let L0 = \<lparr>pipeline = P, procunit_from = None, procunit_to = None,
                procunit_last = None\<rparr>;
          L1 = fold (link_common_unit H up infmt (stream_addr (hd streams))
                       (pa_common_process_type a) (pa_last_level_proc_common a))
                 [1..<MAX_COMMON_PROC_UNIT_SHIFT H] L0;
          L2 = fold (link_stream H up infmt (procunit_last L1)) (pa_streams_post_proc a) L1
      in pipeline L2)"

definition prepare ::
  "pipeline_header \<Rightarrow> bool \<Rightarrow> real \<Rightarrow> unit_prepare \<Rightarrow> FrameInfo \<Rightarrow> camera3_stream list \<Rightarrow>
   PostProcessPipeLine \<Rightarrow> (status_t \<times> bool \<times> PostProcessPipeLine) option" where
  "prepare H chrome_board max_digital_zoom up infmt streams P =
     (case prepare_analyze H chrome_board max_digital_zoom infmt streams of
        None \<Rightarrow> None
      | Some a \<Rightarrow>
          Some (OK, pa_needpostprocess a,
                prepare_link H up infmt streams a
                  (P\<lparr>mMayNeedSyncStreamsOutput := (length streams > 1)\<rparr>)))"

text \<open>
  The invariant of the level buckets: every node created so far is exactly once in the
  first and middle buckets taken together, and the last bucket repeats nodes of the
  middle bucket, each at most once.
\<close>

definition buckets_ok :: "PostProcessPipeLine \<Rightarrow> bool" where
  "buckets_ok P =
     (distinct (mPostProcUnitArray P kFirstLevel @ mPostProcUnitArray P kMiddleLevel)
      \<and> set (mPostProcUnitArray P kFirstLevel @ mPostProcUnitArray P kMiddleLevel) =
          {..<length (units P)}
      \<and> distinct (mPostProcUnitArray P kLastLevel)
      \<and> set (mPostProcUnitArray P kLastLevel) \<subseteq> set (mPostProcUnitArray P kMiddleLevel))"

text \<open>
  A header layout that fits the two loops of \<open>prepare\<close>: the common types are single
  bits at positions from 1 below \<open>MAX_COMMON_PROC_UNIT_SHIFT\<close>, the stream types single
  bits above it and below \<open>MAX_STREAM_PROC_UNIT_SHIFT\<close>, and the copy and face detection
  stages are the ones that need no internal buffer. It is used for examples only; the
  theorems about \<open>prepare\<close> hold for every header.
\<close>

definition example_header :: pipeline_header where
  "example_header = \<lparr>kPostProcessTypeFaceDetection = 2, kPostProcessTypeSwLsc = 4,
     kPostProcessTypeCropRotationScale = 8, kPostprocessTypeUvnr = 16,
     kPostProcessTypeDigitalZoom = 32, kPostProcessTypeScaleAndRotation = 128,
     kPostProcessTypeJpegEncoder = 256, kPostProcessTypeCopy = 512,
     MAX_COMMON_PROC_UNIT_SHIFT = 6, MAX_STREAM_PROC_UNIT_SHIFT = 10,
     NO_NEED_INTERNAL_BUFFER_PROCESS_TYPES = 514\<rparr>"

text \<open>A 1080p input, and two implementation-defined (non-BLOB) output streams.\<close>

definition stream_1080p :: camera3_stream where
  "stream_1080p =
     \<lparr>stream_addr = 1, stream_type = 0, width = 1920, height = 1080, format = 34,
      crop_rotate_scale_degrees = 0\<rparr>"

definition stream_720p :: camera3_stream where
  "stream_720p =
     \<lparr>stream_addr = 2, stream_type = 0, width = 1280, height = 720, format = 34,
      crop_rotate_scale_degrees = 0\<rparr>"

definition input_1080p :: FrameInfo where
  "input_1080p = \<lparr>fi_width = 1920, fi_height = 1080\<rparr>"

text \<open>
  What \<open>prepare\<close> builds for the 720p stream on a device with a maximum digital zoom
  of 4.
\<close>

definition zoom_720p_pipeline :: PostProcessPipeLine where
  "zoom_720p_pipeline =
     prepare_link example_header (\<lambda>cls f u. u) input_1080p [stream_720p]
       \<lparr>pa_common_process_type = 32, pa_streams_post_proc = [(2, 128)],
         pa_last_level_proc_common = 0, pa_needpostprocess = True\<rparr>
       ((new_PostProcessPipeLine 0)\<lparr>mMayNeedSyncStreamsOutput := False\<rparr>)"

section \<open>The output-buffers handler\<close>

text \<open>
  \<open>mCamBufToSyncItemMap\<close> maps a \<open>CameraBuffer\<close> pointer (\<open>None\<close> is the null pointer) to a
  shared \<open>syncItem\<close>. The items are shared between the keys and are changed through
  any of them, so they live in the store \<open>syncItems\<close> and the map holds positions in
  it. The external completion listener \<open>mPostProcFrameListener\<close> is a collaborator:
  every \<open>notifyNewFrame\<close> it receives is appended to \<open>delivered\<close>, and what it returns is
  given by the argument \<open>fl\<close>.
\<close>

record syncItem =
  sync_buffers :: "PostProcBuffer list"
  sync_nums :: int

type_synonym delivery = "PostProcBuffer option \<times> ProcUnitSettings option \<times> int"

type_synonym frame_listener =
  "PostProcBuffer option \<Rightarrow> ProcUnitSettings option \<Rightarrow> int \<Rightarrow> status_t"

record OutputBuffersHandler =
  mCamBufToSyncItemMap :: "nat option \<rightharpoonup> nat"
  syncItems :: "syncItem list"
  delivered :: "delivery list"

text \<open>\<open>buf->cambuf.get()\<close>\<close>

definition cambuf_get :: "PostProcBuffer \<Rightarrow> nat option" where
  "cambuf_get buf = map_option cb_addr (cambuf buf)"

definition listener_notifyNewFrame ::
  "frame_listener \<Rightarrow> PostProcBuffer option \<Rightarrow> ProcUnitSettings option \<Rightarrow> int \<Rightarrow>
   OutputBuffersHandler \<Rightarrow> status_t \<times> OutputBuffersHandler" where
  "listener_notifyNewFrame fl buf settings err h =
     (fl buf settings err, h\<lparr>delivered := delivered h @ [(buf, settings, err)]\<rparr>)"

text \<open>The loop over \<open>sync_buffers\<close> once the countdown is at zero.\<close>

definition return_sync_buffers ::
  "frame_listener \<Rightarrow> PostProcBuffer list \<Rightarrow> ProcUnitSettings option \<Rightarrow> int \<Rightarrow>
   OutputBuffersHandler \<Rightarrow> status_t \<times> OutputBuffersHandler" where
  "return_sync_buffers fl bufs settings err h =
     fold (\<lambda>sync_buf (status, h').
             (let (r, h'') = listener_notifyNewFrame fl (Some sync_buf) settings err h'
              in (status OR r, h'')))
       bufs (OK, h)"

text \<open>
  \<open>OutputBuffersHandler::notifyNewFrame\<close>; \<open>may_need_sync\<close> is the pipeline's
  \<open>mMayNeedSyncStreamsOutput\<close>. With that flag set, \<open>buf\<close> is dereferenced: the result is
  \<open>None\<close> for a null \<open>buf\<close>.
\<close>

definition OutputBuffersHandler_notifyNewFrame ::
  "frame_listener \<Rightarrow> bool \<Rightarrow> PostProcBuffer option \<Rightarrow> ProcUnitSettings option \<Rightarrow> int \<Rightarrow>
   OutputBuffersHandler \<Rightarrow> (status_t \<times> OutputBuffersHandler) option" where
  "OutputBuffersHandler_notifyNewFrame fl may_need_sync buf settings err h =
     (if \<not> may_need_sync then Some (listener_notifyNewFrame fl buf settings err h)
      else
        (case buf of
           None \<Rightarrow> None
         | Some b \<Rightarrow>
             (case mCamBufToSyncItemMap h (cambuf_get b) of
                Some it \<Rightarrow>
                  (let item = (syncItems h ! it)\<lparr>sync_nums := sync_nums (syncItems h ! it) - 1\<rparr>;
                       h1 = h\<lparr>syncItems := (syncItems h)[it := item]\<rparr>;
                       (status, h2) =
                         (if sync_nums item = 0
                          then return_sync_buffers fl (sync_buffers item) settings err h1
                          else (OK, h1))
                   in Some (status,
                            h2\<lparr>mCamBufToSyncItemMap :=
                                 (mCamBufToSyncItemMap h2)(cambuf_get b := None)\<rparr>))
              | None \<Rightarrow> Some (listener_notifyNewFrame fl buf settings err h))))"

text \<open>
  \<open>addSyncBuffersIfNeed\<close>; the result is \<open>None\<close> where \<open>in->cambuf\<close> is null and
  dereferenced.
\<close>

definition addSyncBuffersIfNeed ::
  "bool \<Rightarrow> PostProcBuffer \<Rightarrow> PostProcBuffer list \<Rightarrow> OutputBuffersHandler \<Rightarrow>
   OutputBuffersHandler option" where
  "addSyncBuffersIfNeed may_need_sync inbuf out h =
     (if may_need_sync \<and> length out > 1
      then
        (case cambuf inbuf of
           None \<Rightarrow> None
         | Some c \<Rightarrow>
             if cb_handle c
             then
               (let need_sync =
                      fold (\<lambda>iter need. if cambuf_get iter = cambuf_get inbuf then True else need)
                        out False
                in if need_sync
                   then
                     (let sync_item = \<lparr>sync_buffers = out, sync_nums = int (length out)\<rparr>;
                          shared_sync_item = length (syncItems h)
                      in Some (h\<lparr>syncItems := syncItems h @ [sync_item],
                                 mCamBufToSyncItemMap :=
                                   fold (\<lambda>iter m. m(cambuf_get iter \<mapsto> shared_sync_item)) out
                                     (mCamBufToSyncItemMap h)\<rparr>))
                   else Some h)
             else Some h)
      else Some h)"

text \<open>Terminal deliveries arriving one after the other.\<close>

fun terminal_deliveries ::
  "frame_listener \<Rightarrow> bool \<Rightarrow> (PostProcBuffer \<times> ProcUnitSettings option \<times> int) list \<Rightarrow>
   OutputBuffersHandler \<Rightarrow> OutputBuffersHandler option" where
  "terminal_deliveries fl may_need_sync [] h = Some h"
| "terminal_deliveries fl may_need_sync ((buf, settings, err) # rest) h =
     (case OutputBuffersHandler_notifyNewFrame fl may_need_sync (Some buf) settings err h of
        None \<Rightarrow> None
      | Some (status, h') \<Rightarrow> terminal_deliveries fl may_need_sync rest h')"

definition new_OutputBuffersHandler :: OutputBuffersHandler where
  "new_OutputBuffersHandler =
     \<lparr>mCamBufToSyncItemMap = Map.empty, syncItems = [], delivered = []\<rparr>"

text \<open>Output buffers that all carry the camera buffer of \<open>ex_buf 7\<close>.\<close>

definition alias_buf :: "nat \<Rightarrow> PostProcBuffer" where
  "alias_buf n = \<lparr>index = n, cambuf = cambuf (ex_buf 7)\<rparr>"

section \<open>Pool creation\<close>

lemma createBufferPools_loop_rotate:
  "length xs = length ns \<Longrightarrow>
   createBufferPools_loop ns (p\<lparr>mAvailable := xs @ ds\<rparr>) =
     (OK, p\<lparr>mAvailable := ds @ map2 (\<lambda>b i. b\<lparr>index := i\<rparr>) xs ns\<rparr>)"
proof (induction xs arbitrary: ns ds)
  case Nil
  then show ?case by simp
next
  case (Cons x xs)
  then obtain n ns' where ns: "ns = n # ns'" and len: "length xs = length ns'"
    by (cases ns) auto
  have "createBufferPools_loop ns (p\<lparr>mAvailable := (x # xs) @ ds\<rparr>) =
        createBufferPools_loop ns' (p\<lparr>mAvailable := xs @ (ds @ [x\<lparr>index := n\<rparr>])\<rparr>)"
    by (simp add: ns SharedItemPool_acquireItem_def SharedItemPool_releaseItem_def)
  also have "\<dots> = (OK, p\<lparr>mAvailable := (ds @ [x\<lparr>index := n\<rparr>]) @
                       map2 (\<lambda>b i. b\<lparr>index := i\<rparr>) xs ns'\<rparr>)"
    by (rule Cons.IH [OF len])
  finally show ?case by (simp add: ns)
qed

lemma map2_replicate_upt:
  "map2 f (replicate n x) [0..<n] = map (f x) [0..<n]"
  by (rule nth_equalityI) auto

lemma acquire_many_available:
  "fst (acquire_many n (pools\<lparr>mPostProcItemsPool := p\<lparr>mAvailable := xs\<rparr>\<rparr>)) =
     map Some (take n xs) @ replicate (n - length xs) None"
proof (induction n arbitrary: xs pools p)
  case 0
  then show ?case by simp
next
  case (Suc n)
  show ?case
  proof (cases xs)
    case Nil
    have "fst (acquire_many (Suc n) (pools\<lparr>mPostProcItemsPool := p\<lparr>mAvailable := []\<rparr>\<rparr>)) =
          None # fst (acquire_many n (pools\<lparr>mPostProcItemsPool := p\<lparr>mAvailable := []\<rparr>\<rparr>))"
      by (simp add: acquireItem_def SharedItemPool_acquireItem_def split: prod.splits)
    with Suc.IH [where xs = "[]" and pools = pools and p = p] show ?thesis
      by (simp add: Nil replicate_app_Cons_same)
  next
    case (Cons y ys)
    have "fst (acquire_many (Suc n) (pools\<lparr>mPostProcItemsPool := p\<lparr>mAvailable := y # ys\<rparr>\<rparr>)) =
          Some y # fst (acquire_many n (pools\<lparr>mPostProcItemsPool := p\<lparr>mAvailable := ys\<rparr>\<rparr>))"
      by (simp add: acquireItem_def SharedItemPool_acquireItem_def split: prod.splits)
    with Suc.IH [where xs = ys and pools = pools and p = p] show ?thesis
      by (simp add: Cons)
  qed
qed

text \<open>
  C8. For every capacity \<open>C\<close>, creating the pool (with the allocation succeeding)
  returns \<open>OK\<close> and leaves \<open>C\<close> available items whose indices are \<open>0, ..., C - 1\<close>
  in this order, hence distinct; of \<open>C + 1\<close> subsequent \<open>acquireItem()\<close> calls the
  first \<open>C\<close> yield these items and the last one yields none. Creation returns
  \<open>UNKNOWN_ERROR\<close> when the allocation provided no item (\<open>0 < C\<close>), and more
  generally whenever an iteration of its loop finds no available item.
\<close>

theorem createBufferPools_capacity:
  "fst (createBufferPools True fresh C pools) = OK
   \<and> mBufferPoolSize (snd (createBufferPools True fresh C pools)) = C
   \<and> mAvailable (mPostProcItemsPool (snd (createBufferPools True fresh C pools))) =
       map (\<lambda>i. fresh\<lparr>index := i\<rparr>) [0..<C]
   \<and> map index (mAvailable (mPostProcItemsPool (snd (createBufferPools True fresh C pools)))) =
       [0..<C]
   \<and> fst (acquire_many (Suc C) (snd (createBufferPools True fresh C pools))) =
       map (\<lambda>i. Some (fresh\<lparr>index := i\<rparr>)) [0..<C] @ [None]
   \<and> (0 < C \<longrightarrow> fst (createBufferPools False fresh C pools) = UNKNOWN_ERROR)
   \<and> (mAvailable p = [] \<longrightarrow> fst (createBufferPools_loop (i # rest) p) = UNKNOWN_ERROR)"
proof -
  let ?pool = "mPostProcItemsPool (pools\<lparr>mBufferPoolSize := C\<rparr>)"
  let ?items = "map (\<lambda>i. fresh\<lparr>index := i\<rparr>) [0..<C]"
  have loop: "createBufferPools_loop [0..<C] (?pool\<lparr>mCapacity := C, mAvailable := replicate C fresh @ []\<rparr>) =
      (OK, ?pool\<lparr>mCapacity := C, mAvailable := [] @ map2 (\<lambda>b i. b\<lparr>index := i\<rparr>) (replicate C fresh) [0..<C]\<rparr>)"
    using createBufferPools_loop_rotate [where xs = "replicate C fresh" and ns = "[0..<C]"
        and p = "?pool\<lparr>mCapacity := C\<rparr>" and ds = "[]"]
    by simp
  have res: "createBufferPools True fresh C pools =
      (OK, pools\<lparr>mBufferPoolSize := C,
                 mPostProcItemsPool := ?pool\<lparr>mCapacity := C, mAvailable := ?items\<rparr>\<rparr>)"
    using loop by (simp add: createBufferPools_def SharedItemPool_init_def map2_replicate_upt)
  have acq: "fst (acquire_many (Suc C) (snd (createBufferPools True fresh C pools))) =
      map Some (take (Suc C) ?items) @ replicate (Suc C - length ?items) None"
    unfolding res snd_conv
    using acquire_many_available [where n = "Suc C" and pools = "pools\<lparr>mBufferPoolSize := C\<rparr>"
        and p = "?pool\<lparr>mCapacity := C\<rparr>" and xs = ?items]
    by simp
  have fail: "0 < C \<Longrightarrow> fst (createBufferPools False fresh C pools) = UNKNOWN_ERROR"
    by (cases C) (simp_all add: createBufferPools_def SharedItemPool_init_def upt_rec
        SharedItemPool_acquireItem_def split: prod.splits)
  have empty: "mAvailable p = [] \<Longrightarrow> fst (createBufferPools_loop (i # rest) p) = UNKNOWN_ERROR"
    by (simp add: SharedItemPool_acquireItem_def)
  show ?thesis
    using res acq fail empty by (simp add: comp_def Suc_diff_le)
qed

theorem createBufferPools_capacity_witness:
  "fst (createBufferPools True \<lparr>index = 0, cambuf = None\<rparr> 4
         \<lparr>mBufferPoolSize = 0, mPostProcItemsPool = \<lparr>mCapacity = 0, mAvailable = []\<rparr>\<rparr>) = OK
   \<and> map index (mAvailable (mPostProcItemsPool (snd (createBufferPools True
         \<lparr>index = 0, cambuf = None\<rparr> 4
         \<lparr>mBufferPoolSize = 0, mPostProcItemsPool = \<lparr>mCapacity = 0, mAvailable = []\<rparr>\<rparr>)))) =
       [0, 1, 2, 3]
   \<and> (0::nat) < 4
   \<and> fst (createBufferPools False \<lparr>index = 0, cambuf = None\<rparr> 4
         \<lparr>mBufferPoolSize = 0, mPostProcItemsPool = \<lparr>mCapacity = 0, mAvailable = []\<rparr>\<rparr>) =
       UNKNOWN_ERROR
   \<and> mAvailable \<lparr>mCapacity = 4, mAvailable = []\<rparr> = []
   \<and> fst (createBufferPools_loop [0, 1] \<lparr>mCapacity = 4, mAvailable = []\<rparr>) = UNKNOWN_ERROR"
  using createBufferPools_capacity [where fresh = "\<lparr>index = 0, cambuf = None\<rparr>" and C = 4
      and pools = "\<lparr>mBufferPoolSize = 0, mPostProcItemsPool = \<lparr>mCapacity = 0, mAvailable = []\<rparr>\<rparr>"
      and p = "\<lparr>mCapacity = 4, mAvailable = []\<rparr>" and i = 0 and rest = "[1]"]
  by (simp add: upt_rec)

section \<open>Node operations\<close>

text \<open>
  C5. On a node whose buffer type is not the external one, \<open>addOutputBuffer\<close> returns
  \<open>UNKNOWN_ERROR\<close> (which is not \<open>OK\<close>) and the node is unchanged; on an external-type
  node it returns \<open>OK\<close> and the only change is that the buffer is appended to
  \<open>mOutBufferPool\<close>.
\<close>

theorem addOutputBuffer_regime:
  "(mBufType u \<noteq> kPostProcBufTypeExt \<longrightarrow> addOutputBuffer buf u = (UNKNOWN_ERROR, u))
   \<and> (mBufType u = kPostProcBufTypeExt \<longrightarrow>
        addOutputBuffer buf u = (OK, u\<lparr>mOutBufferPool := mOutBufferPool u @ [buf]\<rparr>))
   \<and> UNKNOWN_ERROR \<noteq> OK"
  by (simp add: addOutputBuffer_def UNKNOWN_ERROR_def OK_def)

theorem addOutputBuffer_regime_witness:
  "mBufType (new_PostProcessUnit ''digitalzoom'' 32 kPostProcBufTypeInt) \<noteq> kPostProcBufTypeExt
   \<and> addOutputBuffer (Some \<lparr>index = 0, cambuf = None\<rparr>)
        (new_PostProcessUnit ''digitalzoom'' 32 kPostProcBufTypeInt) =
       (UNKNOWN_ERROR, new_PostProcessUnit ''digitalzoom'' 32 kPostProcBufTypeInt)
   \<and> mBufType (new_PostProcessUnit ''MemCopy'' 256 kPostProcBufTypeExt) = kPostProcBufTypeExt
   \<and> fst (addOutputBuffer (Some \<lparr>index = 0, cambuf = None\<rparr>)
        (new_PostProcessUnit ''MemCopy'' 256 kPostProcBufTypeExt)) = OK
   \<and> mOutBufferPool (snd (addOutputBuffer (Some \<lparr>index = 0, cambuf = None\<rparr>)
        (new_PostProcessUnit ''MemCopy'' 256 kPostProcBufTypeExt))) =
       [Some \<lparr>index = 0, cambuf = None\<rparr>]"
  using addOutputBuffer_regime [of "new_PostProcessUnit ''digitalzoom'' 32 kPostProcBufTypeInt"
      "Some \<lparr>index = 0, cambuf = None\<rparr>"]
    addOutputBuffer_regime [of "new_PostProcessUnit ''MemCopy'' 256 kPostProcBufTypeExt"
      "Some \<lparr>index = 0, cambuf = None\<rparr>"]
  by (simp add: new_PostProcessUnit_def)

text \<open>
  C6. \<open>start\<close> on a node that is running and \<open>stop\<close> on a node that is not running
  return \<open>OK\<close> and leave the node as it is; in particular the second of two \<open>start\<close>
  calls, and the second of two \<open>stop\<close> calls, does so whatever the thread object
  returned to the first.
\<close>

theorem start_stop_idempotent:
  "(mThreadRunning u \<longrightarrow> start r u = (OK, u))
   \<and> (\<not> mThreadRunning u \<longrightarrow> stop r u = (OK, u))
   \<and> start r2 (snd (start r1 u)) = (OK, snd (start r1 u))
   \<and> stop r2 (snd (stop r1 u)) = (OK, snd (stop r1 u))"
  by (simp add: start_def stop_def Let_def)

theorem start_stop_idempotent_witness:
  "mThreadRunning (snd (start 0 (new_PostProcessUnit ''MemCopy'' 256 kPostProcBufTypeExt)))
   \<and> start 0 (snd (start 0 (new_PostProcessUnit ''MemCopy'' 256 kPostProcBufTypeExt))) =
       (OK, snd (start 0 (new_PostProcessUnit ''MemCopy'' 256 kPostProcBufTypeExt)))
   \<and> \<not> mThreadRunning (new_PostProcessUnit ''MemCopy'' 256 kPostProcBufTypeExt)
   \<and> stop 0 (new_PostProcessUnit ''MemCopy'' 256 kPostProcBufTypeExt) =
       (OK, new_PostProcessUnit ''MemCopy'' 256 kPostProcBufTypeExt)"
  using start_stop_idempotent [of "snd (start 0 (new_PostProcessUnit ''MemCopy'' 256 kPostProcBufTypeExt))" 0]
    start_stop_idempotent [of "new_PostProcessUnit ''MemCopy'' 256 kPostProcBufTypeExt" 0]
  by (simp add: new_PostProcessUnit_def start_def)

lemma prepareProcess_notified:
  "prepareProcess u = Some u' \<Longrightarrow> notified u' = notified u"
  by (auto simp: prepareProcess_def obtainOutput_def acquireItem_def Let_def
      split: if_splits list.splits prod.splits PostProcBufType.splits)

lemma prepareProcess_retained:
  "mThreadRunning u \<Longrightarrow> mInBufferPool u = (b, s) # rest \<Longrightarrow> mCurPostProcBufOut u = Some bout \<Longrightarrow>
   prepareProcess u =
     Some (u\<lparr>mCurPostProcBufIn := b, mCurProcSettings := s, mInBufferPool := rest\<rparr>)"
  by (simp add: prepareProcess_def)

text \<open>
  C7. When the kernel returns the need-next-input status, \<open>relayToNextProcUnit\<close>
  empties the current input and settings slots and changes nothing else: the current
  destination stays in its slot and nothing is appended to the notifications. So an
  iteration of \<open>doProcess\<close> whose kernel returns that status ends with the state that
  \<open>prepareProcess\<close> produced, less input and settings, and without a notification. In
  the next iteration \<open>prepareProcess\<close> finds the destination slot occupied: it only
  dequeues the input, and neither the internal pool nor \<open>mOutBufferPool\<close> is touched.
\<close>

theorem need_next_input_retains_destination:
  "relayToNextProcUnit need lst need u =
     (need, u\<lparr>mCurPostProcBufIn := None, mCurProcSettings := None\<rparr>)
   \<and> (prepareProcess u = Some v \<and> mCurPostProcBufIn v = Some bin
        \<and> mCurPostProcBufOut v = Some bout \<and> k bin bout (mCurProcSettings v) = need \<longrightarrow>
        doProcess_body k need lst status u =
          Some (need, v\<lparr>mCurPostProcBufIn := None, mCurProcSettings := None\<rparr>)
        \<and> notified v = notified u)
   \<and> (mThreadRunning u \<and> mInBufferPool u = (b, s) # rest \<and> mCurPostProcBufOut u = Some bout \<longrightarrow>
        prepareProcess u =
          Some (u\<lparr>mCurPostProcBufIn := b, mCurProcSettings := s, mInBufferPool := rest\<rparr>))"
  using prepareProcess_retained [of u b s rest bout] prepareProcess_notified [of u v]
  by (simp add: relayToNextProcUnit_def doProcess_body_def)

theorem need_next_input_retains_destination_witness:
  "relayToNextProcUnit (- 11) (\<lambda>l b s e. 0) (- 11) ext_unit_retained =
     (- 11, ext_unit_retained)
   \<and> mThreadRunning ext_unit_retained
   \<and> mInBufferPool ext_unit_retained = [(Some (ex_buf 2), None)]
   \<and> mCurPostProcBufOut ext_unit_retained = Some (ex_buf 11)
   \<and> prepareProcess ext_unit_retained =
       Some (ext_unit_retained\<lparr>mCurPostProcBufIn := Some (ex_buf 2), mInBufferPool := []\<rparr>)
   \<and> doProcess_body (\<lambda>bin bout s. - 11) (- 11) (\<lambda>l b s e. 0) OK ext_unit_retained =
       Some (- 11, ext_unit_retained\<lparr>mInBufferPool := []\<rparr>)
   \<and> mOutBufferPool ext_unit_retained = [Some (ex_buf 12)]"
  using need_next_input_retains_destination [where u = ext_unit_retained and need = "- 11"
      and lst = "\<lambda>l b s e. 0" and k = "\<lambda>bin bout s. - 11" and status = OK
      and v = "ext_unit_retained\<lparr>mCurPostProcBufIn := Some (ex_buf 2), mInBufferPool := []\<rparr>"
      and bin = "ex_buf 2" and bout = "ex_buf 11" and b = "Some (ex_buf 2)" and s = None
      and rest = "[]"]
  by (simp add: ext_unit_retained_def ext_unit_queued_def new_PostProcessUnit_def)

text \<open>
  C4, as amended. In a worker-loop iteration that dequeues an input while the current
  destination slot is empty, the destination \<open>d\<close> is obtained by the node's buffer
  type: internal, the result of \<open>acquireItem\<close> on the node's pool; external, the oldest
  buffer of \<open>mOutBufferPool\<close>, which is removed from it; previous-unit (pass-through),
  the dequeued input itself; none for any other buffer type. If no destination is
  obtained, the dequeued input and settings are dropped (both slots are empty
  afterwards), nothing is notified, and \<open>doProcess\<close> returns \<open>OK\<close>.
\<close>

theorem prepareProcess_destination:
  assumes "mThreadRunning u" and "mInBufferPool u = (b, s) # rest"
    and "mCurPostProcBufOut u = None"
    and "d = (case mBufType u of
                kPostProcBufTypeInt \<Rightarrow> fst (acquireItem (mInternalBufPool u))
              | kPostProcBufTypeExt \<Rightarrow> (case mOutBufferPool u of [] \<Rightarrow> None | x # xs \<Rightarrow> x)
              | kPostProcBufTypePre \<Rightarrow> b
              | kPostProcBufTypeOther t \<Rightarrow> None)"
  shows "\<exists>u'. prepareProcess u = Some u'
    \<and> mCurPostProcBufOut u' = d
    \<and> mInBufferPool u' = rest
    \<and> mInternalBufPool u' =
        (if mBufType u = kPostProcBufTypeInt then snd (acquireItem (mInternalBufPool u))
         else mInternalBufPool u)
    \<and> mOutBufferPool u' =
        (if mBufType u = kPostProcBufTypeExt then tl (mOutBufferPool u) else mOutBufferPool u)
    \<and> mCurPostProcBufIn u' = (if d = None then None else b)
    \<and> mCurProcSettings u' = (if d = None then None else s)
    \<and> notified u' = notified u
    \<and> (d = None \<longrightarrow> doProcess_body k need lst status u = Some (status, u'))
    \<and> (d = None \<and> need \<noteq> OK \<longrightarrow> doProcess k need lst u = Some (OK, u'))"
proof (cases "mBufType u")
  case kPostProcBufTypeInt
  then show ?thesis
    using assms
    by (cases "acquireItem (mInternalBufPool u)")
      (auto simp: prepareProcess_def obtainOutput_def doProcess_body_def doProcess_def)
next
  case kPostProcBufTypePre
  then show ?thesis
    using assms
    by (auto simp: prepareProcess_def obtainOutput_def doProcess_body_def doProcess_def)
next
  case kPostProcBufTypeExt
  then show ?thesis
    using assms
    by (cases "mOutBufferPool u")
      (auto simp: prepareProcess_def obtainOutput_def doProcess_body_def doProcess_def)
next
  case (kPostProcBufTypeOther t)
  then show ?thesis
    using assms
    by (auto simp: prepareProcess_def obtainOutput_def doProcess_body_def doProcess_def)
qed

theorem prepareProcess_destination_witness:
  "mThreadRunning ext_unit_queued
   \<and> mInBufferPool ext_unit_queued = [(Some (ex_buf 1), None), (Some (ex_buf 2), None)]
   \<and> mCurPostProcBufOut ext_unit_queued = None
   \<and> (\<exists>u'. prepareProcess ext_unit_queued = Some u'
         \<and> mCurPostProcBufOut u' = Some (ex_buf 11)
         \<and> mOutBufferPool u' = [Some (ex_buf 12)]
         \<and> mCurPostProcBufIn u' = Some (ex_buf 1))
   \<and> mThreadRunning ext_unit_starved
   \<and> mInBufferPool ext_unit_starved = [(Some (ex_buf 1), None), (Some (ex_buf 2), None)]
   \<and> mCurPostProcBufOut ext_unit_starved = None
   \<and> (\<exists>u'. doProcess (\<lambda>bin bout s. 0) (- 11) (\<lambda>l b s e. 0) ext_unit_starved = Some (OK, u')
         \<and> mCurPostProcBufOut u' = None
         \<and> mCurPostProcBufIn u' = None
         \<and> mCurProcSettings u' = None
         \<and> mInBufferPool u' = [(Some (ex_buf 2), None)]
         \<and> notified u' = [])"
proof -
  have q: "mThreadRunning ext_unit_queued"
    "mInBufferPool ext_unit_queued = [(Some (ex_buf 1), None), (Some (ex_buf 2), None)]"
    "mCurPostProcBufOut ext_unit_queued = None"
    "mBufType ext_unit_queued = kPostProcBufTypeExt"
    "mOutBufferPool ext_unit_queued = [Some (ex_buf 11), Some (ex_buf 12)]"
    by (simp_all add: ext_unit_queued_def new_PostProcessUnit_def)
  have s: "mThreadRunning ext_unit_starved"
    "mInBufferPool ext_unit_starved = [(Some (ex_buf 1), None), (Some (ex_buf 2), None)]"
    "mCurPostProcBufOut ext_unit_starved = None"
    "mBufType ext_unit_starved = kPostProcBufTypeExt"
    "mOutBufferPool ext_unit_starved = []"
    "notified ext_unit_starved = []"
    by (simp_all add: ext_unit_starved_def ext_unit_queued_def new_PostProcessUnit_def)
  have dq: "Some (ex_buf 11) =
      (case mBufType ext_unit_queued of
         kPostProcBufTypeInt \<Rightarrow> fst (acquireItem (mInternalBufPool ext_unit_queued))
       | kPostProcBufTypeExt \<Rightarrow>
           (case mOutBufferPool ext_unit_queued of [] \<Rightarrow> None | x # xs \<Rightarrow> x)
       | kPostProcBufTypePre \<Rightarrow> Some (ex_buf 1)
       | kPostProcBufTypeOther t \<Rightarrow> None)"
    by (simp add: q)
  have ds: "None =
      (case mBufType ext_unit_starved of
         kPostProcBufTypeInt \<Rightarrow> fst (acquireItem (mInternalBufPool ext_unit_starved))
       | kPostProcBufTypeExt \<Rightarrow>
           (case mOutBufferPool ext_unit_starved of [] \<Rightarrow> None | x # xs \<Rightarrow> x)
       | kPostProcBufTypePre \<Rightarrow> Some (ex_buf 1)
       | kPostProcBufTypeOther t \<Rightarrow> None)"
    by (simp add: s)
  have "\<exists>u'. prepareProcess ext_unit_queued = Some u'
         \<and> mCurPostProcBufOut u' = Some (ex_buf 11)
         \<and> mOutBufferPool u' = [Some (ex_buf 12)]
         \<and> mCurPostProcBufIn u' = Some (ex_buf 1)"
    using prepareProcess_destination [OF q(1) q(2) q(3) dq, of "\<lambda>bin bout s. 0" "- 11" "\<lambda>l b s e. 0" OK]
    by (auto simp: q(4) q(5))
  moreover have "\<exists>u'. doProcess (\<lambda>bin bout s. 0) (- 11) (\<lambda>l b s e. 0) ext_unit_starved = Some (OK, u')
         \<and> mCurPostProcBufOut u' = None
         \<and> mCurPostProcBufIn u' = None
         \<and> mCurProcSettings u' = None
         \<and> mInBufferPool u' = [(Some (ex_buf 2), None)]
         \<and> notified u' = []"
    using prepareProcess_destination [OF s(1) s(2) s(3) ds, of "\<lambda>bin bout s. 0" "- 11" "\<lambda>l b s e. 0" OK]
    by (auto simp: s(4) s(5) s(6) OK_def)
  ultimately show ?thesis
    using q(1,2,3) s(1,2,3) by simp
qed

text \<open>
  The claim as stated fails when a destination is retained: after an iteration whose
  kernel asked for the next input, the external-regime node dequeues the second input
  but does not pop the oldest supplied buffer \<open>ex_buf 12\<close>; the destination is still
  \<open>ex_buf 11\<close>.
\<close>

theorem prepareProcess_destination_counterexample:
  "doProcess_body (\<lambda>bin bout s. - 11) (- 11) (\<lambda>l b s e. 0) OK ext_unit_queued =
     Some (- 11, ext_unit_retained)
   \<and> mBufType ext_unit_retained = kPostProcBufTypeExt
   \<and> mThreadRunning ext_unit_retained
   \<and> mInBufferPool ext_unit_retained = [(Some (ex_buf 2), None)]
   \<and> mOutBufferPool ext_unit_retained = [Some (ex_buf 12)]
   \<and> prepareProcess ext_unit_retained =
       Some (ext_unit_retained\<lparr>mCurPostProcBufIn := Some (ex_buf 2), mInBufferPool := []\<rparr>)
   \<and> mOutBufferPool (ext_unit_retained\<lparr>mCurPostProcBufIn := Some (ex_buf 2),
                                         mInBufferPool := []\<rparr>) = [Some (ex_buf 12)]
   \<and> mCurPostProcBufOut (ext_unit_retained\<lparr>mCurPostProcBufIn := Some (ex_buf 2),
                                             mInBufferPool := []\<rparr>) = Some (ex_buf 11)
   \<and> ex_buf 11 \<noteq> ex_buf 12"
  by (simp add: ext_unit_retained_def ext_unit_queued_def new_PostProcessUnit_def
      doProcess_body_def prepareProcess_def obtainOutput_def relayToNextProcUnit_def ex_buf_def)

section \<open>Digital zoom formats\<close>

text \<open>
  C9. For every pair of camera buffers, \<open>checkFmt\<close> of the digital zoom unit is true
  exactly when a HAL format of the two lies outside NV12 and YCrCb_420_SP or a V4L2
  format of the two lies outside NV12 and NV21. Hence for a frame whose crop region
  differs from the active pixel array, \<open>processFrame\<close> returns \<open>UNKNOWN_ERROR\<close>
  (unsupported format) exactly when all four formats are among the nominally
  supported ones, and goes on to scale in every other case.
\<close>

theorem digital_zoom_checkFmt_inverted:
  "PostProcessUnitDigitalZoom_checkFmt (Some i) (Some out) =
     (cb_format i \<notin> {HAL_PIXEL_FORMAT_YCrCb_NV12, HAL_PIXEL_FORMAT_YCrCb_420_SP}
      \<or> cb_format out \<notin> {HAL_PIXEL_FORMAT_YCrCb_NV12, HAL_PIXEL_FORMAT_YCrCb_420_SP}
      \<or> cb_v4l2Fmt i \<notin> {V4L2_PIX_FMT_NV12, V4L2_PIX_FMT_NV21}
      \<or> cb_v4l2Fmt out \<notin> {V4L2_PIX_FMT_NV12, V4L2_PIX_FMT_NV21})
   \<and> (cropRegion settings \<noteq> mApa \<and> cambuf inbuf = Some i \<and> cambuf outbuf = Some out \<longrightarrow>
        (PostProcessUnitDigitalZoom_processFrame mApa rga_failed inbuf outbuf settings =
           Some (UNKNOWN_ERROR, ZoomUnsupported))
        = (cb_format i \<in> {HAL_PIXEL_FORMAT_YCrCb_NV12, HAL_PIXEL_FORMAT_YCrCb_420_SP}
           \<and> cb_format out \<in> {HAL_PIXEL_FORMAT_YCrCb_NV12, HAL_PIXEL_FORMAT_YCrCb_420_SP}
           \<and> cb_v4l2Fmt i \<in> {V4L2_PIX_FMT_NV12, V4L2_PIX_FMT_NV21}
           \<and> cb_v4l2Fmt out \<in> {V4L2_PIX_FMT_NV12, V4L2_PIX_FMT_NV21})
        \<and> (fst (the (PostProcessUnitDigitalZoom_processFrame mApa rga_failed inbuf outbuf settings))
              \<noteq> UNKNOWN_ERROR
            \<longrightarrow> PostProcessUnitDigitalZoom_processFrame mApa rga_failed inbuf outbuf settings =
                  Some (OK, if rga_failed then ZoomArm else ZoomRga)))"
proof -
  have crop: "cropRegion settings \<noteq> mApa \<Longrightarrow>
      \<not> (cw_width (cropRegion settings) = cw_width mApa \<and>
         cw_height (cropRegion settings) = cw_height mApa \<and>
         cw_left (cropRegion settings) = cw_left mApa \<and>
         cw_top (cropRegion settings) = cw_top mApa)"
    by (cases "cropRegion settings"; cases mApa) auto
  show ?thesis
    using crop
    by (auto simp: PostProcessUnitDigitalZoom_checkFmt_def
        PostProcessUnitDigitalZoom_processFrame_def Let_def UNKNOWN_ERROR_def OK_def)
qed

theorem digital_zoom_checkFmt_inverted_witness:
  "cropRegion \<lparr>cropRegion = \<lparr>cw_left = 480, cw_top = 270, cw_width = 960, cw_height = 540\<rparr>\<rparr>
     \<noteq> \<lparr>cw_left = 0, cw_top = 0, cw_width = 1920, cw_height = 1080\<rparr>
   \<and> cb_format (the (cambuf (ex_buf 1))) = HAL_PIXEL_FORMAT_YCrCb_NV12
   \<and> cb_v4l2Fmt (the (cambuf (ex_buf 1))) = V4L2_PIX_FMT_NV12
   \<and> \<not> PostProcessUnitDigitalZoom_checkFmt (cambuf (ex_buf 1)) (cambuf (ex_buf 2))
   \<and> PostProcessUnitDigitalZoom_processFrame
        \<lparr>cw_left = 0, cw_top = 0, cw_width = 1920, cw_height = 1080\<rparr> False (ex_buf 1) (ex_buf 2)
        \<lparr>cropRegion = \<lparr>cw_left = 480, cw_top = 270, cw_width = 960, cw_height = 540\<rparr>\<rparr> =
       Some (UNKNOWN_ERROR, ZoomUnsupported)"
  using digital_zoom_checkFmt_inverted [where i = "the (cambuf (ex_buf 1))"
      and out = "the (cambuf (ex_buf 2))" and inbuf = "ex_buf 1" and outbuf = "ex_buf 2"
      and mApa = "\<lparr>cw_left = 0, cw_top = 0, cw_width = 1920, cw_height = 1080\<rparr>"
      and rga_failed = False
      and settings = "\<lparr>cropRegion = \<lparr>cw_left = 480, cw_top = 270, cw_width = 960, cw_height = 540\<rparr>\<rparr>"]
  by (simp add: ex_buf_def HAL_PIXEL_FORMAT_YCrCb_NV12_def HAL_PIXEL_FORMAT_YCrCb_420_SP_def
      V4L2_PIX_FMT_NV12_def V4L2_PIX_FMT_NV21_def)

section \<open>Lens-shading block sizes\<close>

text \<open>
  C10. Entered with \<open>i = 0\<close>, the loop of \<open>lsc_config\<close> that should derive the block
  sizes from the resolution leaves at once, for every width and height, without
  running its body: the size tables keep the 1080p defaults (\<open>sizex\<close> all 120, \<open>sizey\<close>
  67, 68, ...), and only the last element of each is increased by half of the width's,
  respectively the height's, remainder modulo 16. For 640 by 480 the tables are
  therefore still those of 1080p.
\<close>

theorem lsc_config_split_never_runs:
  "lsc_config_split_loop w h 0 sizex sizey n = Some (1, sizex, sizey, n)
   \<and> lsc_config_sizes w h =
       Some ([120, 120, 120, 120, 120, 120, 120, 120 + word_of_int ((w smod 16) sdiv 2)],
             [67, 68, 67, 68, 67, 68, 67, 68 + word_of_int ((h smod 16) sdiv 2)],
             0)
   \<and> lsc_config_sizes 640 480 =
       Some ([120, 120, 120, 120, 120, 120, 120, 120], [67, 68, 67, 68, 67, 68, 67, 68], 0)"
  by (simp add: lsc_config_sizes_def signed_divide_int_def signed_modulo_int_def)

section \<open>Graph construction\<close>

lemma prepare_analyze_single:
  assumes "width stream = fi_width infmt" and "height stream = fi_height infmt"
    and "format stream \<noteq> HAL_PIXEL_FORMAT_BLOB"
    and "getRotationDegrees chrome_board stream = 0"
    and "max_digital_zoom \<le> 1"
  shows "prepare_analyze H chrome_board max_digital_zoom infmt [stream] =
     Some \<lparr>pa_common_process_type = 0,
           pa_streams_post_proc = [(stream_addr stream, kPostProcessTypeCopy H)],
           pa_last_level_proc_common =
             (if kPostProcessTypeCopy H = 0
              then last_level_proc [1..<MAX_COMMON_PROC_UNIT_SHIFT H] 0 else 0),
           pa_needpostprocess =
             (kPostProcessTypeCopy H AND NOT (NO_NEED_INTERNAL_BUFFER_PROCESS_TYPES H) \<noteq> 0)\<rparr>"
  using assms
  by (simp add: prepare_analyze_def analyze_stream_def add_memcpy_units_def Let_def)

text \<open>
  C2. For a single requested stream whose width and height are those of the input
  frame, whose format is not BLOB, with zero rotation and a maximum digital zoom of at
  most 1.0, \<open>prepare\<close> returns \<open>OK\<close> and sets \<open>needpostprocess\<close> to false. The only stage
  of such a stream is the injected copy, and the copy type is one of
  \<open>NO_NEED_INTERNAL_BUFFER_PROCESS_TYPES\<close> (the hypothesis on the header, whose text is
  not among the sources).
\<close>

theorem prepare_single_stream_no_postprocess:
  assumes "width stream = fi_width infmt" and "height stream = fi_height infmt"
    and "format stream \<noteq> HAL_PIXEL_FORMAT_BLOB"
    and "getRotationDegrees chrome_board stream = 0"
    and "max_digital_zoom \<le> 1"
    and "kPostProcessTypeCopy H AND NOT (NO_NEED_INTERNAL_BUFFER_PROCESS_TYPES H) = 0"
  shows "\<exists>P'. prepare H chrome_board max_digital_zoom up infmt [stream] P = Some (OK, False, P')"
  using prepare_analyze_single [OF assms(1-5), of H] assms(6)
  by (simp add: prepare_def Let_def)

theorem prepare_single_stream_no_postprocess_witness:
  "width stream_1080p = fi_width input_1080p
   \<and> height stream_1080p = fi_height input_1080p
   \<and> format stream_1080p \<noteq> HAL_PIXEL_FORMAT_BLOB
   \<and> getRotationDegrees False stream_1080p = 0
   \<and> (1 :: real) \<le> 1
   \<and> kPostProcessTypeCopy example_header
        AND NOT (NO_NEED_INTERNAL_BUFFER_PROCESS_TYPES example_header) = 0
   \<and> (\<exists>P'. prepare example_header False 1 (\<lambda>cls f u. u) input_1080p [stream_1080p]
              (new_PostProcessPipeLine 0) = Some (OK, False, P'))"
proof -
  have h: "width stream_1080p = fi_width input_1080p"
    "height stream_1080p = fi_height input_1080p"
    "format stream_1080p \<noteq> HAL_PIXEL_FORMAT_BLOB"
    "getRotationDegrees False stream_1080p = 0"
    "(1 :: real) \<le> 1"
    "kPostProcessTypeCopy example_header
       AND NOT (NO_NEED_INTERNAL_BUFFER_PROCESS_TYPES example_header) = 0"
    by (simp_all add: stream_1080p_def input_1080p_def HAL_PIXEL_FORMAT_BLOB_def
        getRotationDegrees_def example_header_def)
  show ?thesis
    using h prepare_single_stream_no_postprocess [OF h, of "\<lambda>cls f u. u" "new_PostProcessPipeLine 0"]
    by simp
qed

lemma fold_preserves:
  assumes "\<And>x s. I s \<Longrightarrow> I (f x s)" and "I s"
  shows "I (fold f xs s)"
  using assms(2) by (induction xs arbitrary: s) (simp_all add: assms(1))

lemma link_new_unit_buckets:
  assumes "buckets_ok P"
  shows "buckets_ok (link_new_unit up infmt is_last stream (length (units P)) to
           (P\<lparr>units := units P @ [x]\<rparr>))"
proof (cases to)
  case None
  then show ?thesis
    using assms
    by (auto simp: buckets_ok_def link_new_unit_def linkPostProcUnit_def
        unit_attachListener_def call_prepare_def Let_def lessThan_Suc)
next
  case (Some t)
  then show ?thesis
    using assms
    by (auto simp: buckets_ok_def link_new_unit_def linkPostProcUnit_def
        unit_attachListener_def call_prepare_def Let_def lessThan_Suc)
qed

lemma link_common_unit_buckets:
  "buckets_ok (pipeline L) \<Longrightarrow>
   buckets_ok (pipeline (link_common_unit H up infmt ms c l i L))"
  using link_new_unit_buckets [of "pipeline L"]
  by (auto simp: link_common_unit_def make_shared_def Let_def split: option.splits)

lemma link_stream_unit_buckets:
  "buckets_ok (pipeline L) \<Longrightarrow>
   buckets_ok (pipeline (link_stream_unit H up infmt st t l i L))"
  using link_new_unit_buckets [of "pipeline L"]
  by (auto simp: link_stream_unit_def make_shared_def Let_def split: option.splits)

lemma link_stream_buckets:
  "buckets_ok (pipeline L) \<Longrightarrow> buckets_ok (pipeline (link_stream H up infmt ml pm L))"
  unfolding link_stream_def Let_def
  by (rule fold_preserves [where I = "\<lambda>L. buckets_ok (pipeline L)"])
    (simp_all add: link_stream_unit_buckets)

lemma prepare_link_buckets:
  assumes "buckets_ok P"
  shows "buckets_ok (prepare_link H up infmt streams a P)"
proof -
  have "buckets_ok (pipeline \<lparr>pipeline = P, procunit_from = None, procunit_to = None,
                               procunit_last = None\<rparr>)"
    using assms by simp
  then have "buckets_ok (pipeline (fold (link_common_unit H up infmt (stream_addr (hd streams))
                (pa_common_process_type a) (pa_last_level_proc_common a))
                [1..<MAX_COMMON_PROC_UNIT_SHIFT H]
                \<lparr>pipeline = P, procunit_from = None, procunit_to = None,
                  procunit_last = None\<rparr>))"
    by (rule fold_preserves [where I = "\<lambda>L. buckets_ok (pipeline L)", rotated])
      (rule link_common_unit_buckets)
  then show ?thesis
    unfolding prepare_link_def Let_def
    by (rule fold_preserves [where I = "\<lambda>L. buckets_ok (pipeline L)", rotated])
      (rule link_stream_buckets)
qed

lemma prepare_buckets:
  assumes "buckets_ok P"
    and "prepare H chrome_board max_digital_zoom up infmt streams P = Some (status, need, P')"
  shows "buckets_ok P'"
proof -
  from assms(2) obtain a where
    P': "P' = prepare_link H up infmt streams a
                (P\<lparr>mMayNeedSyncStreamsOutput := (length streams > 1)\<rparr>)"
    by (auto simp: prepare_def split: option.splits)
  have "buckets_ok (P\<lparr>mMayNeedSyncStreamsOutput := (length streams > 1)\<rparr>)"
    using assms(1) by (simp add: buckets_ok_def)
  then show ?thesis
    unfolding P' by (rule prepare_link_buckets)
qed

text \<open>
  C3, as amended. After \<open>prepare\<close> on a new pipeline, every created node appears
  exactly once in the first and middle buckets taken together, hence in exactly one
  of the two; the last bucket has no repetition and holds only nodes that are in the
  middle bucket as well.
\<close>

theorem prepare_level_buckets:
  assumes "prepare H chrome_board max_digital_zoom up infmt streams
             (new_PostProcessPipeLine camid) = Some (status, need, P)"
  shows "distinct (mPostProcUnitArray P kFirstLevel @ mPostProcUnitArray P kMiddleLevel)
    \<and> set (mPostProcUnitArray P kFirstLevel @ mPostProcUnitArray P kMiddleLevel) =
        {..<length (units P)}
    \<and> distinct (mPostProcUnitArray P kLastLevel)
    \<and> set (mPostProcUnitArray P kLastLevel) \<subseteq> set (mPostProcUnitArray P kMiddleLevel)"
proof -
  have "buckets_ok (new_PostProcessPipeLine camid)"
    by (simp add: buckets_ok_def new_PostProcessPipeLine_def)
  then have "buckets_ok P"
    using assms by (rule prepare_buckets)
  then show ?thesis
    by (simp add: buckets_ok_def)
qed

lemma push_bit_word_values:
  "push_bit (Suc 0) (1 :: 32 word) = 2" "push_bit 2 (1 :: 32 word) = 4"
  "push_bit 3 (1 :: 32 word) = 8" "push_bit 4 (1 :: 32 word) = 16"
  "push_bit 5 (1 :: 32 word) = 32" "push_bit 7 (1 :: 32 word) = 128"
  "push_bit 8 (1 :: 32 word) = 256" "push_bit 9 (1 :: 32 word) = 512"
  by simp_all

lemma zoom_720p_analysis:
  "prepare_analyze example_header False 4 input_1080p [stream_720p] =
     Some \<lparr>pa_common_process_type = 32, pa_streams_post_proc = [(2, 128)],
           pa_last_level_proc_common = 0, pa_needpostprocess = True\<rparr>"
  by (simp add: prepare_analyze_def analyze_stream_def add_memcpy_units_def Let_def
      stream_720p_def input_1080p_def example_header_def HAL_PIXEL_FORMAT_BLOB_def
      getRotationDegrees_def CAMERA3_STREAM_OUTPUT_def)

lemma zoom_720p_buckets:
  "mPostProcUnitArray zoom_720p_pipeline =
     (\<lambda>level. [])(kFirstLevel := [0], kMiddleLevel := [1], kLastLevel := [1])"
  by (simp add: zoom_720p_pipeline_def prepare_link_def link_common_unit_def link_stream_def link_stream_unit_def
      last_level_proc_def common_unit_def stream_unit_def link_new_unit_def
      linkPostProcUnit_def make_shared_def unit_attachListener_def call_prepare_def
      new_PostProcessPipeLine_def example_header_def Let_def upt_rec push_bit_word_values
      fun_upd_twist)

lemma zoom_720p_prepare:
  "prepare example_header False 4 (\<lambda>cls f u. u) input_1080p [stream_720p]
     (new_PostProcessPipeLine 0) = Some (OK, True, zoom_720p_pipeline)"
  by (simp add: prepare_def zoom_720p_analysis zoom_720p_pipeline_def)

theorem prepare_level_buckets_witness:
  "prepare example_header False 4 (\<lambda>cls f u. u) input_1080p [stream_720p]
     (new_PostProcessPipeLine 0) = Some (OK, True, zoom_720p_pipeline)
   \<and> distinct (mPostProcUnitArray zoom_720p_pipeline kFirstLevel @
               mPostProcUnitArray zoom_720p_pipeline kMiddleLevel)
   \<and> set (mPostProcUnitArray zoom_720p_pipeline kFirstLevel @
          mPostProcUnitArray zoom_720p_pipeline kMiddleLevel) =
       {..<length (units zoom_720p_pipeline)}
   \<and> distinct (mPostProcUnitArray zoom_720p_pipeline kLastLevel)
   \<and> set (mPostProcUnitArray zoom_720p_pipeline kLastLevel) \<subseteq>
       set (mPostProcUnitArray zoom_720p_pipeline kMiddleLevel)"
  using prepare_level_buckets [OF zoom_720p_prepare] zoom_720p_prepare
  by simp

lemma zoom_720p_names:
  "map (\<lambda>(cls, u). mName u) (units zoom_720p_pipeline) = [''digitalzoom'', ''ScaleRotation'']"
  by (simp add: zoom_720p_pipeline_def prepare_link_def link_common_unit_def link_stream_def
      link_stream_unit_def last_level_proc_def common_unit_def stream_unit_def
      link_new_unit_def linkPostProcUnit_def make_shared_def unit_attachListener_def
      call_prepare_def new_PostProcessPipeLine_def new_PostProcessUnit_def attachListener_def
      example_header_def Let_def upt_rec push_bit_word_values)

text \<open>
  The claim as stated fails for a terminal node that has a predecessor: for the 720p
  stream with digital zoom, the scaler (node 1) follows the zoom node (node 0) and is
  linked at the middle level and again at the last level.
\<close>

theorem prepare_level_buckets_counterexample:
  "map_option (\<lambda>(status, need, P).
       (map (mPostProcUnitArray P) [kFirstLevel, kMiddleLevel, kLastLevel],
        map (\<lambda>(cls, u). mName u) (units P)))
     (prepare example_header False 4 (\<lambda>cls f u. u) input_1080p [stream_720p]
        (new_PostProcessPipeLine 0)) =
   Some ([[0], [1], [1]], [''digitalzoom'', ''ScaleRotation''])"
  by (simp add: zoom_720p_prepare zoom_720p_buckets zoom_720p_names)

section \<open>Synchronised output\<close>

lemma need_sync_fold:
  "fold (\<lambda>iter need. if cambuf_get iter = k then True else need) out acc =
     (acc \<or> k \<in> cambuf_get ` set out)"
  by (induction out arbitrary: acc) auto

lemma sync_map_fold:
  "fold (\<lambda>iter m. m(cambuf_get iter \<mapsto> r)) out m0 k =
     (if k \<in> cambuf_get ` set out then Some r else m0 k)"
  by (induction out arbitrary: m0) auto

lemma return_sync_buffers_state:
  "snd (return_sync_buffers fl bufs settings err h) =
     h\<lparr>delivered := delivered h @ map (\<lambda>b. (Some b, settings, err)) bufs\<rparr>"
proof -
  have "fold (\<lambda>sync_buf (status, h').
             (let (r, h'') = listener_notifyNewFrame fl (Some sync_buf) settings err h'
              in (status OR r, h'')))
          bufs (st, h) =
        (fold (\<lambda>b status. status OR fl (Some b) settings err) bufs st,
         h\<lparr>delivered := delivered h @ map (\<lambda>b. (Some b, settings, err)) bufs\<rparr>)" for st
    by (induction bufs arbitrary: st h) (simp_all add: listener_notifyNewFrame_def)
  then show ?thesis
    by (simp add: return_sync_buffers_def)
qed

lemma notify_pending:
  assumes "mCamBufToSyncItemMap h (cambuf_get b) = Some r"
    and "r < length (syncItems h)"
    and "sync_nums (syncItems h ! r) \<noteq> 1"
  shows "\<exists>st. OutputBuffersHandler_notifyNewFrame fl True (Some b) s e h =
     Some (st, h\<lparr>syncItems := (syncItems h)[r := (syncItems h ! r)\<lparr>sync_nums := sync_nums (syncItems h ! r) - 1\<rparr>],
               mCamBufToSyncItemMap := (mCamBufToSyncItemMap h)(cambuf_get b := None)\<rparr>)"
  using assms by (simp add: OutputBuffersHandler_notifyNewFrame_def Let_def)

lemma notify_fires:
  assumes "mCamBufToSyncItemMap h (cambuf_get b) = Some r"
    and "r < length (syncItems h)"
    and "sync_nums (syncItems h ! r) = 1"
  shows "\<exists>st h'. OutputBuffersHandler_notifyNewFrame fl True (Some b) s e h = Some (st, h')
     \<and> delivered h' =
         delivered h @ map (\<lambda>x. (Some x, s, e)) (sync_buffers (syncItems h ! r))
     \<and> mCamBufToSyncItemMap h' = (mCamBufToSyncItemMap h)(cambuf_get b := None)"
proof -
  let ?item = "(syncItems h ! r)\<lparr>sync_nums := 0\<rparr>"
  let ?h1 = "h\<lparr>syncItems := (syncItems h)[r := ?item]\<rparr>"
  obtain st h2 where r: "return_sync_buffers fl (sync_buffers (syncItems h ! r)) s e ?h1 = (st, h2)"
    by (cases "return_sync_buffers fl (sync_buffers (syncItems h ! r)) s e ?h1")
  have h2: "h2 = ?h1\<lparr>delivered := delivered ?h1 @
              map (\<lambda>b. (Some b, s, e)) (sync_buffers (syncItems h ! r))\<rparr>"
    using return_sync_buffers_state [of fl "sync_buffers (syncItems h ! r)" s e ?h1] r
    by simp
  show ?thesis
    using assms r h2
    by (simp add: OutputBuffersHandler_notifyNewFrame_def Let_def)
qed

lemma deliveries_pending:
  assumes "distinct (map (\<lambda>d. cambuf_get (fst d)) ds)"
    and "\<forall>d \<in> set ds. mCamBufToSyncItemMap h (cambuf_get (fst d)) = Some r"
    and "r < length (syncItems h)"
    and "int (length ds) < sync_nums (syncItems h ! r)"
  shows "\<exists>h'. terminal_deliveries fl True ds h = Some h'
     \<and> delivered h' = delivered h
     \<and> length (syncItems h') = length (syncItems h)
     \<and> syncItems h' ! r =
         (syncItems h ! r)\<lparr>sync_nums := sync_nums (syncItems h ! r) - int (length ds)\<rparr>
     \<and> (\<forall>k. mCamBufToSyncItemMap h' k =
           (if k \<in> (\<lambda>d. cambuf_get (fst d)) ` set ds then None else mCamBufToSyncItemMap h k))"
  using assms
proof (induction ds arbitrary: h)
  case Nil
  then show ?case by simp
next
  case (Cons d ds)
  obtain b s e where d: "d = (b, s, e)" by (cases d)
  let ?h1 = "h\<lparr>syncItems := (syncItems h)[r := (syncItems h ! r)\<lparr>sync_nums := sync_nums (syncItems h ! r) - 1\<rparr>],
               mCamBufToSyncItemMap := (mCamBufToSyncItemMap h)(cambuf_get b := None)\<rparr>"
  have key: "mCamBufToSyncItemMap h (cambuf_get b) = Some r"
    using Cons.prems(2) d by simp
  have "sync_nums (syncItems h ! r) \<noteq> 1"
    using Cons.prems(4) by simp
  from notify_pending [OF key Cons.prems(3) this, of fl s e]
  obtain st where step: "OutputBuffersHandler_notifyNewFrame fl True (Some b) s e h = Some (st, ?h1)"
    by blast
  have p1: "distinct (map (\<lambda>d. cambuf_get (fst d)) ds)"
    using Cons.prems(1) by simp
  have nb: "cambuf_get b \<notin> (\<lambda>d. cambuf_get (fst d)) ` set ds"
    using Cons.prems(1) d by simp
  have p2: "\<forall>x \<in> set ds. mCamBufToSyncItemMap ?h1 (cambuf_get (fst x)) = Some r"
  proof
    fix x
    assume x: "x \<in> set ds"
    then have "cambuf_get (fst x) \<noteq> cambuf_get b"
      using nb by (metis image_eqI)
    then show "mCamBufToSyncItemMap ?h1 (cambuf_get (fst x)) = Some r"
      using Cons.prems(2) x by simp
  qed
  have p3: "r < length (syncItems ?h1)"
    using Cons.prems(3) by simp
  have p4: "int (length ds) < sync_nums (syncItems ?h1 ! r)"
    using Cons.prems(3,4) by simp
  from Cons.IH [OF p1 p2 p3 p4] obtain h' where
    run: "terminal_deliveries fl True ds ?h1 = Some h'"
    and dl: "delivered h' = delivered ?h1"
    and len: "length (syncItems h') = length (syncItems ?h1)"
    and item: "syncItems h' ! r =
         (syncItems ?h1 ! r)\<lparr>sync_nums := sync_nums (syncItems ?h1 ! r) - int (length ds)\<rparr>"
    and keys: "\<forall>k. mCamBufToSyncItemMap h' k =
           (if k \<in> (\<lambda>d. cambuf_get (fst d)) ` set ds then None else mCamBufToSyncItemMap ?h1 k)"
    by blast
  have "terminal_deliveries fl True (d # ds) h = Some h'"
    using step run by (simp add: d)
  moreover have "delivered h' = delivered h"
    using dl by simp
  moreover have "length (syncItems h') = length (syncItems h)"
    using len by simp
  moreover have "syncItems h' ! r =
      (syncItems h ! r)\<lparr>sync_nums := sync_nums (syncItems h ! r) - int (length (d # ds))\<rparr>"
    using item Cons.prems(3) by simp
  moreover have "\<forall>k. mCamBufToSyncItemMap h' k =
      (if k \<in> (\<lambda>d. cambuf_get (fst d)) ` set (d # ds) then None else mCamBufToSyncItemMap h k)"
    using keys d by auto
  ultimately show ?case by blast
qed

lemma terminal_deliveries_append:
  "terminal_deliveries fl may (xs @ ys) h =
     (case terminal_deliveries fl may xs h of
        None \<Rightarrow> None
      | Some h' \<Rightarrow> terminal_deliveries fl may ys h')"
  by (induction xs arbitrary: h) (auto split: option.splits)

lemma addSyncBuffersIfNeed_group:
  assumes "1 < length out" and "cambuf inbuf = Some c" and "cb_handle c"
    and "cambuf_get inbuf \<in> cambuf_get ` set out"
  shows "addSyncBuffersIfNeed True inbuf out h =
     Some (h\<lparr>syncItems := syncItems h @ [\<lparr>sync_buffers = out, sync_nums = int (length out)\<rparr>],
             mCamBufToSyncItemMap :=
               fold (\<lambda>iter m. m(cambuf_get iter \<mapsto> length (syncItems h))) out
                 (mCamBufToSyncItemMap h)\<rparr>)"
  using assms by (simp add: addSyncBuffersIfNeed_def need_sync_fold Let_def)

lemma sync_group_fires_at_last:
  assumes "1 < length out"
    and "distinct (map cambuf_get out)"
    and "cambuf inbuf = Some c" and "cb_handle c"
    and "cambuf_get inbuf \<in> cambuf_get ` set out"
    and "mset (map fst ds) = mset out"
  shows "\<exists>h0. addSyncBuffersIfNeed True inbuf out h = Some h0
     \<and> (\<forall>n < length ds. \<exists>h'. terminal_deliveries fl True (take n ds) h0 = Some h'
            \<and> delivered h' = delivered h)
     \<and> (\<exists>h'. terminal_deliveries fl True ds h0 = Some h'
            \<and> delivered h' = delivered h @ map (\<lambda>x. (Some x, snd (last ds))) out
            \<and> (\<forall>x \<in> set out. mCamBufToSyncItemMap h' (cambuf_get x) = None))"
proof -
  let ?r = "length (syncItems h)"
  let ?item = "\<lparr>sync_buffers = out, sync_nums = int (length out)\<rparr>"
  let ?h0 = "h\<lparr>syncItems := syncItems h @ [?item],
               mCamBufToSyncItemMap :=
                 fold (\<lambda>iter m. m(cambuf_get iter \<mapsto> ?r)) out (mCamBufToSyncItemMap h)\<rparr>"
  let ?key = "\<lambda>d :: PostProcBuffer \<times> ProcUnitSettings option \<times> int. cambuf_get (fst d)"
  have add: "addSyncBuffersIfNeed True inbuf out h = Some ?h0"
    using assms(1,3,4,5) by (rule addSyncBuffersIfNeed_group)
  have len: "length ds = length out"
    using assms(6) by (metis length_map mset_eq_length)
  have sets: "fst ` set ds = set out"
    using assms(6) by (metis mset_eq_setD set_map)
  have "mset (map cambuf_get (map fst ds)) = mset (map cambuf_get out)"
    using assms(6) by (metis mset_map)
  then have "distinct (map cambuf_get (map fst ds))"
    using assms(2) by (metis mset_eq_imp_distinct_iff)
  then have dist: "distinct (map ?key ds)"
    by (simp add: comp_def)
  have r0: "?r < length (syncItems ?h0)" by simp
  have item0: "syncItems ?h0 ! ?r = ?item" by simp
  have keys0: "\<forall>d \<in> set ds. mCamBufToSyncItemMap ?h0 (?key d) = Some ?r"
    using sets by (auto simp: sync_map_fold)
  have before: "\<exists>h'. terminal_deliveries fl True (take n ds) ?h0 = Some h'
      \<and> delivered h' = delivered h" if n: "n < length ds" for n
  proof -
    have d1: "distinct (map ?key (take n ds))"
      using dist by (simp add: take_map [symmetric] del: take_map)
    have d2: "\<forall>d \<in> set (take n ds). mCamBufToSyncItemMap ?h0 (?key d) = Some ?r"
      using keys0 by (meson in_set_takeD)
    have d4: "int (length (take n ds)) < sync_nums (syncItems ?h0 ! ?r)"
      using n len by simp
    from deliveries_pending [OF d1 d2 r0 d4, of fl] show ?thesis
      by auto
  qed
  have ne: "ds \<noteq> []"
    using len assms(1) by auto
  obtain b s e where lst: "last ds = (b, s, e)"
    by (cases "last ds")
  have split: "ds = butlast ds @ [(b, s, e)]"
    using ne lst by (metis append_butlast_last_id)
  have e1: "distinct (map ?key (butlast ds))"
    using dist by (simp add: map_butlast distinct_butlast)
  have e2: "\<forall>d \<in> set (butlast ds). mCamBufToSyncItemMap ?h0 (?key d) = Some ?r"
    using keys0 by (meson in_set_butlastD)
  have e4: "int (length (butlast ds)) < sync_nums (syncItems ?h0 ! ?r)"
    using assms(1) len by simp
  from deliveries_pending [OF e1 e2 r0 e4, of fl] obtain h1 where
    run1: "terminal_deliveries fl True (butlast ds) ?h0 = Some h1"
    and dl1: "delivered h1 = delivered ?h0"
    and len1: "length (syncItems h1) = length (syncItems ?h0)"
    and item1: "syncItems h1 ! ?r =
        (syncItems ?h0 ! ?r)\<lparr>sync_nums := sync_nums (syncItems ?h0 ! ?r) - int (length (butlast ds))\<rparr>"
    and keys1: "\<forall>k. mCamBufToSyncItemMap h1 k =
        (if k \<in> ?key ` set (butlast ds) then None else mCamBufToSyncItemMap ?h0 k)"
    by blast
  have "distinct (map ?key (butlast ds @ [(b, s, e)]))"
    using dist split by simp
  then have notin: "cambuf_get b \<notin> ?key ` set (butlast ds)"
    by simp
  have "(b, s, e) \<in> set ds"
    using ne lst by (metis last_in_set)
  then have "mCamBufToSyncItemMap ?h0 (cambuf_get b) = Some ?r"
    using keys0 by fastforce
  then have f1: "mCamBufToSyncItemMap h1 (cambuf_get b) = Some ?r"
    using keys1 notin by simp
  have f2: "?r < length (syncItems h1)"
    using len1 by simp
  have f3: "sync_nums (syncItems h1 ! ?r) = 1"
    using item1 assms(1) len by simp
  have bufs1: "sync_buffers (syncItems h1 ! ?r) = out"
    using item1 by simp
  from notify_fires [OF f1 f2 f3, of fl s e] obtain st h2 where
    step: "OutputBuffersHandler_notifyNewFrame fl True (Some b) s e h1 = Some (st, h2)"
    and dl2: "delivered h2 = delivered h1 @ map (\<lambda>x. (Some x, s, e)) out"
    and keys2: "mCamBufToSyncItemMap h2 = (mCamBufToSyncItemMap h1)(cambuf_get b := None)"
    using bufs1 by auto
  have "terminal_deliveries fl True (butlast ds @ [(b, s, e)]) ?h0 = Some h2"
    using run1 step by (simp add: terminal_deliveries_append)
  then have run: "terminal_deliveries fl True ds ?h0 = Some h2"
    using split by simp
  have dl: "delivered h2 = delivered h @ map (\<lambda>x. (Some x, snd (last ds))) out"
    using dl2 dl1 lst by simp
  have gone: "\<forall>x \<in> set out. mCamBufToSyncItemMap h2 (cambuf_get x) = None"
  proof
    fix x
    assume "x \<in> set out"
    then have "x \<in> fst ` set ds"
      using sets by simp
    then obtain d where d: "d \<in> set ds" and fd: "fst d = x"
      by (metis imageE)
    from d split have "d \<in> set (butlast ds) \<or> d = (b, s, e)"
      by (metis Un_iff empty_iff insert_iff list.set(1) list.set(2) set_append)
    then show "mCamBufToSyncItemMap h2 (cambuf_get x) = None"
    proof
      assume "d \<in> set (butlast ds)"
      then have "cambuf_get x \<in> ?key ` set (butlast ds)"
        using fd by force
      then show ?thesis
        using keys1 keys2 by simp
    next
      assume "d = (b, s, e)"
      then show ?thesis
        using fd keys2 by auto
    qed
  qed
  show ?thesis
    using add before run dl gone by blast
qed

text \<open>
  C1, as amended. Let the pipeline be prepared for more than one stream and a frame be
  dispatched with \<open>K \<ge> 2\<close> output buffers that are backed by pairwise distinct camera
  buffers, one of which is the camera buffer of the input frame (which has a buffer
  handle). Whatever the order in which the \<open>K\<close> producing branches deliver to the
  handler, nothing reaches the external completion listener before the last of them
  has delivered (the shared countdown, initialised to the number of output buffers,
  is then at zero); with the last delivery each of the \<open>K\<close> output buffers is delivered
  exactly once, in the order of the request and with the settings and status of that
  last delivery, and their entries are gone from the table. A terminal delivery whose
  camera buffer is not in the table (or any delivery when the pipeline has a single
  stream) is passed to the listener at once.
\<close>

theorem sync_group_delivery:
  assumes "1 < length out"
    and "distinct (map cambuf_get out)"
    and "cambuf inbuf = Some c" and "cb_handle c"
    and "cambuf_get inbuf \<in> cambuf_get ` set out"
    and "mset (map fst ds) = mset out"
  shows "(\<exists>h0. addSyncBuffersIfNeed True inbuf out h = Some h0
      \<and> (\<forall>n < length ds. \<exists>h'. terminal_deliveries fl True (take n ds) h0 = Some h'
             \<and> delivered h' = delivered h)
      \<and> (\<exists>h'. terminal_deliveries fl True ds h0 = Some h'
             \<and> delivered h' = delivered h @ map (\<lambda>x. (Some x, snd (last ds))) out
             \<and> (\<forall>x \<in> set out. mCamBufToSyncItemMap h' (cambuf_get x) = None)))
    \<and> (\<not> may_need_sync \<or> mCamBufToSyncItemMap g (cambuf_get b) = None \<longrightarrow>
         OutputBuffersHandler_notifyNewFrame fl may_need_sync (Some b) s e g =
           Some (fl (Some b) s e, g\<lparr>delivered := delivered g @ [(Some b, s, e)]\<rparr>))"
proof
  show "\<exists>h0. addSyncBuffersIfNeed True inbuf out h = Some h0
      \<and> (\<forall>n < length ds. \<exists>h'. terminal_deliveries fl True (take n ds) h0 = Some h'
             \<and> delivered h' = delivered h)
      \<and> (\<exists>h'. terminal_deliveries fl True ds h0 = Some h'
             \<and> delivered h' = delivered h @ map (\<lambda>x. (Some x, snd (last ds))) out
             \<and> (\<forall>x \<in> set out. mCamBufToSyncItemMap h' (cambuf_get x) = None))"
    using assms by (rule sync_group_fires_at_last)
next
  show "\<not> may_need_sync \<or> mCamBufToSyncItemMap g (cambuf_get b) = None \<longrightarrow>
         OutputBuffersHandler_notifyNewFrame fl may_need_sync (Some b) s e g =
           Some (fl (Some b) s e, g\<lparr>delivered := delivered g @ [(Some b, s, e)]\<rparr>)"
    by (auto simp: OutputBuffersHandler_notifyNewFrame_def listener_notifyNewFrame_def)
qed

theorem sync_group_delivery_witness:
  "1 < length [ex_buf 7, ex_buf 8, ex_buf 9]
   \<and> distinct (map cambuf_get [ex_buf 7, ex_buf 8, ex_buf 9])
   \<and> cambuf (ex_buf 7) \<noteq> None
   \<and> cb_handle (the (cambuf (ex_buf 7)))
   \<and> cambuf_get (ex_buf 7) \<in> cambuf_get ` set [ex_buf 7, ex_buf 8, ex_buf 9]
   \<and> mset (map fst [(ex_buf 9, None :: ProcUnitSettings option, 0 :: int),
                    (ex_buf 7, None, 0), (ex_buf 8, None, - 1)]) =
       mset [ex_buf 7, ex_buf 8, ex_buf 9]
   \<and> (\<exists>h0 h'. addSyncBuffersIfNeed True (ex_buf 7) [ex_buf 7, ex_buf 8, ex_buf 9]
                 new_OutputBuffersHandler = Some h0
        \<and> terminal_deliveries (\<lambda>b s e. 0) True
             [(ex_buf 9, None, 0), (ex_buf 7, None, 0), (ex_buf 8, None, - 1)] h0 = Some h'
        \<and> delivered h' =
             [(Some (ex_buf 7), None, - 1), (Some (ex_buf 8), None, - 1),
              (Some (ex_buf 9), None, - 1)])
   \<and> mCamBufToSyncItemMap new_OutputBuffersHandler (cambuf_get (ex_buf 3)) = None
   \<and> OutputBuffersHandler_notifyNewFrame (\<lambda>b s e. 0) True (Some (ex_buf 3)) None 0
        new_OutputBuffersHandler =
       Some (0, new_OutputBuffersHandler\<lparr>delivered := [(Some (ex_buf 3), None, 0)]\<rparr>)"
proof -
  have h: "1 < length [ex_buf 7, ex_buf 8, ex_buf 9]"
    "distinct (map cambuf_get [ex_buf 7, ex_buf 8, ex_buf 9])"
    "cambuf (ex_buf 7) = Some (the (cambuf (ex_buf 7)))"
    "cb_handle (the (cambuf (ex_buf 7)))"
    "cambuf_get (ex_buf 7) \<in> cambuf_get ` set [ex_buf 7, ex_buf 8, ex_buf 9]"
    "mset (map fst [(ex_buf 9, None :: ProcUnitSettings option, 0 :: int),
                    (ex_buf 7, None, 0), (ex_buf 8, None, - 1)]) =
       mset [ex_buf 7, ex_buf 8, ex_buf 9]"
    by (simp_all add: cambuf_get_def ex_buf_def)
  have g: "mCamBufToSyncItemMap new_OutputBuffersHandler (cambuf_get (ex_buf 3)) = None"
    "delivered new_OutputBuffersHandler = []"
    by (simp_all add: new_OutputBuffersHandler_def)
  note t = sync_group_delivery [OF h, of new_OutputBuffersHandler "\<lambda>b s e. 0" True
      new_OutputBuffersHandler "ex_buf 3" None 0]
  have "\<exists>h0 h'. addSyncBuffersIfNeed True (ex_buf 7) [ex_buf 7, ex_buf 8, ex_buf 9]
                 new_OutputBuffersHandler = Some h0
        \<and> terminal_deliveries (\<lambda>b s e. 0) True
             [(ex_buf 9, None, 0), (ex_buf 7, None, 0), (ex_buf 8, None, - 1)] h0 = Some h'
        \<and> delivered h' =
             [(Some (ex_buf 7), None, - 1), (Some (ex_buf 8), None, - 1),
              (Some (ex_buf 9), None, - 1)]"
    using t g(2) by auto
  moreover have "OutputBuffersHandler_notifyNewFrame (\<lambda>b s e. 0) True (Some (ex_buf 3)) None 0
        new_OutputBuffersHandler =
       Some (0, new_OutputBuffersHandler\<lparr>delivered := [(Some (ex_buf 3), None, 0)]\<rparr>)"
    using t g by simp
  moreover have "cambuf (ex_buf 7) \<noteq> None"
    by (simp add: ex_buf_def)
  ultimately show ?thesis
    using h(1,2,4,5,6) g(1) by blast
qed

text \<open>
  The claim as stated fails when the output buffers share one camera buffer: the table
  then has a single key, which the first delivery erases while the countdown is at 2.
  With three such buffers the second delivery already reaches the listener, the third
  does too, the first buffer never does, and the countdown never reaches zero.
\<close>

theorem sync_group_delivery_counterexample:
  "cambuf_get (alias_buf 1) = cambuf_get (ex_buf 7)
   \<and> cambuf_get (alias_buf 2) = cambuf_get (ex_buf 7)
   \<and> cambuf_get (alias_buf 3) = cambuf_get (ex_buf 7)
   \<and> map_option delivered
        (Option.bind
           (addSyncBuffersIfNeed True (ex_buf 7) [alias_buf 1, alias_buf 2, alias_buf 3]
              new_OutputBuffersHandler)
           (terminal_deliveries (\<lambda>b s e. 0) True
              [(alias_buf 1, None, 0), (alias_buf 2, None, 0)])) =
       Some [(Some (alias_buf 2), None, 0)]
   \<and> map_option (\<lambda>h. (delivered h, map sync_nums (syncItems h)))
        (Option.bind
           (addSyncBuffersIfNeed True (ex_buf 7) [alias_buf 1, alias_buf 2, alias_buf 3]
              new_OutputBuffersHandler)
           (terminal_deliveries (\<lambda>b s e. 0) True
              [(alias_buf 1, None, 0), (alias_buf 2, None, 0), (alias_buf 3, None, 0)])) =
       Some ([(Some (alias_buf 2), None, 0), (Some (alias_buf 3), None, 0)], [2])"
  by (simp add: addSyncBuffersIfNeed_def OutputBuffersHandler_notifyNewFrame_def
      listener_notifyNewFrame_def new_OutputBuffersHandler_def cambuf_get_def alias_buf_def
      ex_buf_def Let_def)

end
